theory Spec2Isabelle
  imports Complex_Main "HOL-Library.Word" "HOL-Library.Multiset"
begin

unbundle bit_operations_syntax

section \<open>GamificationService\<close>

subsection \<open>Player data\<close>

datatype rarity = common | rare | epic | legendary

record Achievement =
  id_ach :: string
  name_ach :: string
  description_ach :: string
  icon :: string
  unlockedAt :: int
  rarity :: rarity
  points :: int

record NFTBadge =
  id_nft :: string
  name_nft :: string
  description_nft :: string
  imageUrl :: string
  mintedAt :: int
  rarity_nft :: string
  attributes :: "(string \<times> string) list"

record PlayerStats =
  playerId :: string
  level :: int
  totalPoints :: int
  threatsDetected :: int
  honeypotsTriggered :: int
  currentLeague :: string
  achievements :: "Achievement list"
  nftBadges :: "NFTBadge list"

record LeaderboardEntry =
  playerId_entry :: string
  playerName :: string
  level_entry :: int
  points_entry :: int
  rank :: int
  avatar :: "string option"

record Leaderboard =
  players :: "LeaderboardEntry list"
  userRank :: int
  totalPlayers :: int

text \<open>The private fields of \<open>GamificationServiceClass\<close>; \<open>null\<close> is \<open>None\<close>.\<close>

record GamificationService =
  playerStats :: "PlayerStats option"
  achievements_service :: "Achievement list"
  leaderboard :: "Leaderboard option"

subsection \<open>unlockAchievement\<close>

definition unlockAchievement :: "Achievement \<Rightarrow> GamificationService \<Rightarrow> GamificationService" where
  "unlockAchievement achievement this =
     (case playerStats this of
        None \<Rightarrow> this
      | Some ps \<Rightarrow>
          let alreadyUnlocked = list_ex (\<lambda>a. id_ach a = id_ach achievement) (achievements ps)
          in if alreadyUnlocked then this
             else this\<lparr>playerStats := Some (ps\<lparr>
                    achievements := achievements ps @ [achievement],
                    totalPoints := totalPoints ps + points achievement\<rparr>)\<rparr>)"

subsection \<open>calculateThreatPoints\<close>

text \<open>
  JavaScript values as far as the point tables of \<open>calculateThreatPoints\<close> need them.
  A property read on an object literal first looks at the literal's own properties and
  then at the properties every object inherits from \<open>Object.prototype\<close>; those are
  functions (or, for \<open>__proto__\<close>, an object): truthy and not numbers.
\<close>

datatype jsvalue = JNumber rat | JObject | JUndefined

text \<open>
  The result, a JavaScript number: \<open>NaN\<close> or a value. Products are computed exactly;
  for every pair of entries of the two tables below the floating-point product rounds to
  the same integer. \<open>Math.round\<close> rounds to the nearest integer, a half upwards.
\<close>

datatype number = NaN | Finite rat

definition Object_prototype_keys :: "string list" where
  "Object_prototype_keys =
     [''constructor'', ''__defineGetter__'', ''__defineSetter__'', ''hasOwnProperty'',
      ''__lookupGetter__'', ''__lookupSetter__'', ''isPrototypeOf'',
      ''propertyIsEnumerable'', ''toString'', ''valueOf'', ''__proto__'',
      ''toLocaleString'']"

definition get_property :: "(string \<times> rat) list \<Rightarrow> string \<Rightarrow> jsvalue" where
  "get_property own k =
     (case map_of own k of
        Some v \<Rightarrow> JNumber v
      | None \<Rightarrow> if k \<in> set Object_prototype_keys then JObject else JUndefined)"

fun truthy :: "jsvalue \<Rightarrow> bool" where
  "truthy (JNumber r) = (r \<noteq> 0)"
| "truthy JObject = True"
| "truthy JUndefined = False"

definition or_else :: "jsvalue \<Rightarrow> jsvalue \<Rightarrow> jsvalue" where
  "or_else a b = (if truthy a then a else b)"

fun times_js :: "jsvalue \<Rightarrow> jsvalue \<Rightarrow> number" where
  "times_js (JNumber a) (JNumber b) = Finite (a * b)"
| "times_js _ _ = NaN"

fun Math_round :: "number \<Rightarrow> number" where
  "Math_round NaN = NaN"
| "Math_round (Finite r) = Finite (of_int \<lfloor>r + 1 / 2\<rfloor>)"

definition basePoints :: "(string \<times> rat) list" where
  "basePoints = [(''low'', 10), (''medium'', 25), (''high'', 50), (''critical'', 100)]"

definition typeMultiplier :: "(string \<times> rat) list" where
  "typeMultiplier =
     [(''malware'', 12 / 10), (''phishing'', 11 / 10), (''ddos'', 13 / 10),
      (''brute_force'', 1), (''sql_injection'', 14 / 10), (''xss'', 11 / 10)]"

definition calculateThreatPoints :: "string \<Rightarrow> string \<Rightarrow> number" where
  "calculateThreatPoints threatType severity =
     (let base = or_else (get_property basePoints severity) (JNumber 10);
          multiplier = or_else (get_property typeMultiplier threatType) (JNumber 1)
      in Math_round (times_js base multiplier))"

section \<open>BlockchainService\<close>

subsection \<open>Number.prototype.toString and JSON.stringify\<close>

text \<open>
  Strings are lists of 8-bit characters, read as the UTF-16 code units 0 to 255; numbers
  that are serialised are integers. \<open>digits radix n\<close> is \<open>n.toString(radix)\<close> for a
  number \<open>n \<ge> 0\<close> and \<open>Number_toString\<close> adds the sign, as JavaScript does.
\<close>

definition digit_char :: "nat \<Rightarrow> char" where
  "digit_char d = ''0123456789abcdefghijklmnopqrstuvwxyz'' ! d"

function digits :: "int \<Rightarrow> int \<Rightarrow> string" where
  "digits radix n =
     (if radix < 2 \<or> n < radix then [digit_char (nat n)]
      else digits radix (n div radix) @ [digit_char (nat (n mod radix))])"
  by pat_completeness auto
termination
  by (relation "measure (\<lambda>(radix, n). nat n)") (auto simp: int_div_less_self)

definition Number_toString :: "int \<Rightarrow> int \<Rightarrow> string" where
  "Number_toString radix n =
     (if n < 0 then CHR ''-'' # digits radix (- n) else digits radix n)"

text \<open>
  \<open>JSON.stringify\<close> of a string: the quotation mark and the backslash are escaped,
  control characters below U+0020 are written as \<open>\b \t \n \f \r\<close> or
  \<open>\u00XX\<close>, every other code unit stands for itself.
\<close>

definition json_escape :: "char \<Rightarrow> string" where
  "json_escape c =
     (if c = CHR 0x22 then [CHR 0x5C, CHR 0x22]
      else if c = CHR 0x5C then [CHR 0x5C, CHR 0x5C]
      else if c = CHR 0x08 then [CHR 0x5C, CHR ''b'']
      else if c = CHR 0x09 then [CHR 0x5C, CHR ''t'']
      else if c = CHR 0x0A then [CHR 0x5C, CHR ''n'']
      else if c = CHR 0x0C then [CHR 0x5C, CHR ''f'']
      else if c = CHR 0x0D then [CHR 0x5C, CHR ''r'']
      else if (of_char c :: nat) < 32
        then [CHR 0x5C, CHR ''u'', CHR ''0'', CHR ''0'',
              digit_char (of_char c div 16), digit_char (of_char c mod 16)]
      else [c])"

definition stringify_string :: "string \<Rightarrow> string" where
  "stringify_string s = [CHR 0x22] @ concat (map json_escape s) @ [CHR 0x22]"

definition stringify_number :: "int \<Rightarrow> string" where
  "stringify_number n = Number_toString 10 n"

fun join_comma :: "string list \<Rightarrow> string" where
  "join_comma [] = []"
| "join_comma [x] = x"
| "join_comma (x # y # ys) = x @ '','' @ join_comma (y # ys)"

definition stringify_array :: "('a \<Rightarrow> string) \<Rightarrow> 'a list \<Rightarrow> string" where
  "stringify_array f xs = ''['' @ join_comma (map f xs) @ '']''"

definition json_key :: "string \<Rightarrow> string" where
  "json_key k = stringify_string k @ '':''"

subsection \<open>Threat records and blocks\<close>

text \<open>
  The declared type of the argument of \<open>submitThreatRecord\<close>, and the
  \<open>ThreatRecord\<close>. A \<open>Date\<close> is its time value in milliseconds; the
  \<open>metadata\<close> object is a list of keys with the JSON text of their values.
\<close>

record ThreatData =
  threatType :: string
  severity :: string
  sourceIp :: string
  targetIp :: string
  signature :: string
  metadata :: "(string \<times> string) list"

record ThreatRecord = ThreatData +
  id_rec :: string
  timestamp_rec :: int

text \<open>
  The argument object of \<open>submitThreatRecord\<close> as it is at run time: the six declared
  properties and, possibly, an own \<open>id\<close> property (\<open>None\<close>: the object has none).
  The parameter type declares no \<open>id\<close>, but an object with more properties than
  declared is accepted when it is not an object literal, and the spread copies every own
  property.
\<close>

record SubmittedData = ThreatData +
  own_id :: "string option"

record Block =
  blockNumber :: int
  blockHash :: string
  previousHash :: string
  timestamp_blk :: int
  threatRecords :: "ThreatRecord list"
  minerId :: string
  nonce :: int
  merkleRoot :: string

text \<open>
  The state of \<open>BlockchainServiceClass\<close>, with the AsyncStorage entries
  \<open>local_blockchain\<close> and \<open>pending_threat_records\<close> that it writes (\<open>None\<close>: no
  such entry).
\<close>

record BlockchainService =
  localChain :: "Block list"
  pendingThreatRecords :: "ThreatRecord list"
  isConnected :: bool
  nodeId :: string
  stored_local_blockchain :: "Block list option"
  stored_pending_threat_records :: "ThreatRecord list option"

text \<open>
  What an operation of the service reads from outside: the clock, the random number
  generator (as the text \<open>Math.random().toString(36).substring(2)\<close>), whether
  \<open>AsyncStorage.setItem\<close> throws, and whether the \<open>k\<close>-th call of
  \<open>HoneyNetService.submitThreatToBlockchain\<close> made by the operation throws.
\<close>

record BlockchainEnv =
  Date_now :: int
  random36 :: string
  new_Date :: int
  setItem_throws :: bool
  network_throws :: "nat \<Rightarrow> bool"

datatype error = Error

subsection \<open>Identifiers and persistence\<close>

definition generateThreatId :: "BlockchainEnv \<Rightarrow> string" where
  "generateThreatId env =
     (let timestamp = Number_toString 10 (Date_now env);
          random = random36 env
      in ''threat_'' @ timestamp @ ''_'' @ random)"

definition savePendingRecords :: "BlockchainEnv \<Rightarrow> BlockchainService \<Rightarrow> BlockchainService" where
  "savePendingRecords env this =
     (if setItem_throws env then this
      else this\<lparr>stored_pending_threat_records := Some (pendingThreatRecords this)\<rparr>)"

definition saveLocalChain :: "BlockchainEnv \<Rightarrow> BlockchainService \<Rightarrow> BlockchainService" where
  "saveLocalChain env this =
     (if setItem_throws env then this
      else this\<lparr>stored_local_blockchain := Some (localChain this)\<rparr>)"

text \<open>\<open>submitToNetwork\<close> logs and rethrows what the network call throws.\<close>

definition submitToNetwork :: "BlockchainEnv \<Rightarrow> nat \<Rightarrow> ThreatRecord \<Rightarrow> error + unit" where
  "submitToNetwork env k threatRecord = (if network_throws env k then Inl Error else Inr ())"

subsection \<open>submitThreatRecord\<close>

text \<open>
  The record is \<open>{id: this.generateThreatId(), ...threatData, timestamp: new Date()}\<close>:
  the properties of the argument are written after the generated id and before the
  timestamp, so an own \<open>id\<close> of the argument replaces the generated one. The result
  is the returned id, or the error that \<open>submitThreatRecord\<close> logs and rethrows when
  the network call throws; the record is pending in both cases.
\<close>

definition submitThreatRecord ::
  "BlockchainEnv \<Rightarrow> SubmittedData \<Rightarrow> BlockchainService \<Rightarrow> (error + string) \<times> BlockchainService" where
  "submitThreatRecord env threatData this =
     (let generated = generateThreatId env;
          threatRecord = ThreatData.extend (ThreatData.truncate threatData)
            (ThreatRecord.fields
               (case own_id threatData of None \<Rightarrow> generated | Some i \<Rightarrow> i)
               (new_Date env));
          this1 = this\<lparr>pendingThreatRecords := pendingThreatRecords this @ [threatRecord]\<rparr>;
          this2 = savePendingRecords env this1
      in if isConnected this2 then
           (case submitToNetwork env 0 threatRecord of
              Inl e \<Rightarrow> (Inl e, this2)
            | Inr _ \<Rightarrow> (Inr (id_rec threatRecord), this2))
         else (Inr (id_rec threatRecord), this2))"

subsection \<open>calculateBlockHash and validateChain\<close>

text \<open>
  \<open>JSON.stringify(blockData)\<close>. How a threat record is serialised depends on the order
  in which its properties were created and on its metadata, which the record type does
  not fix: the serialisation of one record is the parameter \<open>ser\<close>.
\<close>

definition stringify_blockData :: "(ThreatRecord \<Rightarrow> string) \<Rightarrow> Block \<Rightarrow> string" where
  "stringify_blockData ser block =
     ''{'' @ json_key ''blockNumber'' @ stringify_number (blockNumber block) @
     '','' @ json_key ''previousHash'' @ stringify_string (previousHash block) @
     '','' @ json_key ''timestamp'' @ stringify_number (timestamp_blk block) @
     '','' @ json_key ''threatRecords'' @ stringify_array ser (threatRecords block) @
     '','' @ json_key ''nonce'' @ stringify_number (nonce block) @ ''}''"

text \<open>
  The loop of \<open>calculateBlockHash\<close>. \<open>hash\<close> is a 32-bit integer after every
  round (\<open>hash & hash\<close>), so the arithmetic is that of \<open>32 word\<close>, read as a signed
  number at the end.
\<close>

fun hash_loop :: "32 word \<Rightarrow> string \<Rightarrow> 32 word" where
  "hash_loop hash [] = hash"
| "hash_loop hash (c # dataString) =
     (let char = of_char c;
          hash1 = (push_bit 5 hash - hash) + char;
          hash2 = hash1 AND hash1
      in hash_loop hash2 dataString)"

definition calculateBlockHash :: "(ThreatRecord \<Rightarrow> string) \<Rightarrow> Block \<Rightarrow> string" where
  "calculateBlockHash ser block =
     (let dataString = stringify_blockData ser block
      in Number_toString 16 (sint (hash_loop 0 dataString)))"

text \<open>The \<open>for\<close> loop of \<open>validateChain\<close>, from index \<open>i\<close> on.\<close>

function validateChain_loop :: "(ThreatRecord \<Rightarrow> string) \<Rightarrow> Block list \<Rightarrow> nat \<Rightarrow> bool" where
  "validateChain_loop ser chain i =
     (if i < length chain then
        (let currentBlock = chain ! i;
             previousBlock = chain ! (i - 1)
         in if previousHash currentBlock \<noteq> blockHash previousBlock then False
            else if calculateBlockHash ser currentBlock \<noteq> blockHash currentBlock then False
            else validateChain_loop ser chain (i + 1))
      else True)"
  by pat_completeness auto
termination
  by (relation "measure (\<lambda>(ser, chain, i). length chain - i)") auto

definition validateChain :: "(ThreatRecord \<Rightarrow> string) \<Rightarrow> Block list \<Rightarrow> bool" where
  "validateChain ser chain = (if length chain = 0 then True else validateChain_loop ser chain 1)"

subsection \<open>mergeChains\<close>

text \<open>
  The source's comment: simple merge strategy, replace local chain if network chain is
  longer and valid.
\<close>

definition mergeChains ::
  "(ThreatRecord \<Rightarrow> string) \<Rightarrow> BlockchainEnv \<Rightarrow> Block list \<Rightarrow> BlockchainService \<Rightarrow> BlockchainService" where
  "mergeChains ser env networkBlocks this =
     (if length networkBlocks > length (localChain this) then
        (let isValid = validateChain ser networkBlocks
         in if isValid then saveLocalChain env (this\<lparr>localChain := networkBlocks\<rparr>)
            else this)
      else this)"

subsection \<open>submitPendingRecords\<close>

text \<open>
  The loop over the snapshot \<open>recordsToSubmit\<close>; \<open>k\<close> counts the calls of
  \<open>submitToNetwork\<close> made so far.
\<close>

fun submitPending_loop ::
  "BlockchainEnv \<Rightarrow> nat \<Rightarrow> ThreatRecord list \<Rightarrow> BlockchainService \<Rightarrow> BlockchainService" where
  "submitPending_loop env k [] this = this"
| "submitPending_loop env k (record # recordsToSubmit) this =
     (case submitToNetwork env k record of
        Inr _ \<Rightarrow>
          submitPending_loop env (k + 1) recordsToSubmit
            (this\<lparr>pendingThreatRecords :=
               filter (\<lambda>r. id_rec r \<noteq> id_rec record) (pendingThreatRecords this)\<rparr>)
      | Inl _ \<Rightarrow> submitPending_loop env (k + 1) recordsToSubmit this)"

definition submitPendingRecords :: "BlockchainEnv \<Rightarrow> BlockchainService \<Rightarrow> BlockchainService" where
  "submitPendingRecords env this =
     (if \<not> isConnected this \<or> length (pendingThreatRecords this) = 0 then this
      else
        (let recordsToSubmit = pendingThreatRecords this
         in savePendingRecords env (submitPending_loop env 0 recordsToSubmit this)))"

section \<open>Numbers and dates\<close>

text \<open>
  Counters are JavaScript numbers with integer values. \<open>plus_one n\<close> is the value of
  \<open>n + 1\<close> in double arithmetic (so of \<open>n += 1\<close> and of \<open>n++\<close>) for an
  integer \<open>n\<close> that is a double: exact while the sum is within \<open>-2^53 .. 2^53\<close>;
  beyond that only even integers are doubles and the sum, halfway between two of them, is
  rounded to the one with the even significand; from \<open>2^54\<close> on the sum is rounded
  back to \<open>n\<close>.
\<close>

definition plus_one :: "int \<Rightarrow> int" where
  "plus_one n =
     (if - (2 ^ 53) \<le> n + 1 \<and> n + 1 \<le> 2 ^ 53 then n + 1
      else if - (2 ^ 54) \<le> n \<and> n < 2 ^ 54 then (if even (n div 2) then n else n + 2)
      else n)"

text \<open>
  A date-valued property on which the code calls \<open>getTime()\<close>: a \<open>Date\<close> object
  with its time value in milliseconds, or the text that \<open>JSON.stringify\<close> wrote for
  such a date and \<open>JSON.parse\<close> gave back (a string has no \<open>getTime\<close>). Every
  other date-valued property is kept as its time value.
\<close>

datatype js_date = DateObject int | DateString int

fun stringified :: "js_date \<Rightarrow> js_date" where
  "stringified (DateObject t) = DateString t"
| "stringified (DateString t) = DateString t"

fun getTime :: "js_date \<Rightarrow> error + int" where
  "getTime (DateObject t) = Inr t"
| "getTime (DateString t) = Inl Error"

text \<open>The time value that a date or the text of a date stands for.\<close>

fun time_value :: "js_date \<Rightarrow> int" where
  "time_value (DateObject t) = t"
| "time_value (DateString t) = t"

section \<open>HoneyNetMobileService\<close>

datatype threat_type = malware | phishing | network | app | sms

datatype severity_level = low | medium | high | critical

record ThreatEvent =
  id_ev :: string
  timestamp_ev :: int
  type_ev :: threat_type
  severity_ev :: severity_level
  description_ev :: string
  source :: string
  blocked :: bool

record Statistics =
  threatsDetected_stat :: int
  attacksBlocked :: int
  activeHoneypots_stat :: int
  networkNodes :: string
  uptime :: int
  lastUpdate :: int

datatype honeypot_type = contact_hp | file_hp | sms_hp | app_hp | photo_hp

text \<open>
  The \<open>content: any\<close> of a honeypot: a text or, for the contact, an object with name,
  phone and email. Texts outside ASCII are written as their UTF-8 bytes.
\<close>

datatype honeypot_content = Text string | Contact string string string

record MobileHoneypot =
  id_hp :: string
  type_hp :: honeypot_type
  name_hp :: string
  content :: honeypot_content
  created :: int
  triggered :: bool
  triggerCount :: int

text \<open>
  The state of \<open>HoneyNetMobileService\<close> (the websocket handle apart, which the
  operations below do not touch) and the AsyncStorage entries \<open>honeynet_threats\<close>,
  \<open>honeynet_honeypots\<close>, \<open>honeynet_statistics\<close> and
  \<open>honeynet_protection_active\<close> (\<open>None\<close>: no such entry).
\<close>

record HoneyNetMobileService =
  isInitialized :: bool
  isProtectionActive :: bool
  honeypots :: "MobileHoneypot list"
  statistics :: Statistics
  stored_honeynet_threats :: "ThreatEvent list option"
  stored_honeynet_honeypots :: "MobileHoneypot list option"
  stored_honeynet_statistics :: "Statistics option"
  stored_honeynet_protection_active :: "string option"

text \<open>
  The outside of one operation: \<open>random_index n\<close> is the value of
  \<open>Math.floor(Math.random() * n)\<close>; whether \<open>AsyncStorage.getItem\<close> throws for a
  key and whether \<open>AsyncStorage.setItem\<close> throws; the time value of \<open>new Date()\<close>.
\<close>

record HoneyNetEnv =
  random_index :: "nat \<Rightarrow> int"
  getItem_throws_hn :: "string \<Rightarrow> bool"
  setItem_throws_hn :: bool
  new_Date_hn :: int

subsection \<open>logThreat\<close>

text \<open>
  Whatever throws inside \<open>logThreat\<close> is caught and logged there, and the log stays
  as it was. \<open>splice(0, length - 100)\<close> removes the oldest entries beyond 100.
\<close>

definition logThreat :: "HoneyNetEnv \<Rightarrow> ThreatEvent \<Rightarrow> HoneyNetMobileService \<Rightarrow> HoneyNetMobileService" where
  "logThreat env threat this =
     (if getItem_throws_hn env ''honeynet_threats'' then this
      else
        (let threats = stored_honeynet_threats this;
             threatList = (case threats of Some l \<Rightarrow> l | None \<Rightarrow> []) @ [threat];
             threatList1 =
               (if length threatList > 100 then drop (length threatList - 100) threatList
                else threatList)
         in if setItem_throws_hn env then this
            else this\<lparr>stored_honeynet_threats := Some threatList1\<rparr>))"

subsection \<open>triggerRandomHoneypot\<close>

definition saveHoneypots :: "HoneyNetEnv \<Rightarrow> HoneyNetMobileService \<Rightarrow> HoneyNetMobileService" where
  "saveHoneypots env this =
     (if setItem_throws_hn env then this
      else this\<lparr>stored_honeynet_honeypots := Some (honeypots this)\<rparr>)"

text \<open>
  \<open>activeHoneypots\<close> holds references to the untriggered honeypots: here, their
  positions in \<open>honeypots\<close>. Reading it out of range gives \<open>undefined\<close>, and
  the assignment to \<open>undefined.triggered\<close> throws.
\<close>

definition triggerRandomHoneypot ::
  "HoneyNetEnv \<Rightarrow> HoneyNetMobileService \<Rightarrow> error + HoneyNetMobileService" where
  "triggerRandomHoneypot env this =
     (let activeHoneypots =
            filter (\<lambda>i. \<not> triggered (honeypots this ! i)) [0..<length (honeypots this)]
      in if length activeHoneypots > 0 then
           (let k = random_index env (length activeHoneypots)
            in if 0 \<le> k \<and> k < int (length activeHoneypots) then
                 (let i = activeHoneypots ! nat k;
                      randomHoneypot = honeypots this ! i;
                      randomHoneypot1 = randomHoneypot\<lparr>triggered := True\<rparr>;
                      randomHoneypot2 =
                        randomHoneypot1\<lparr>triggerCount := plus_one (triggerCount randomHoneypot1)\<rparr>
                  in Inr (saveHoneypots env
                       (this\<lparr>honeypots := (honeypots this)[i := randomHoneypot2]\<rparr>)))
               else Inl Error)
         else Inr this)"

subsection \<open>initializeHoneypots and loadStoredData\<close>

definition default_honeypots :: "int \<Rightarrow> MobileHoneypot list" where
  "default_honeypots now =
     [\<lparr>id_hp = ''contact_1'', type_hp = contact_hp,
        name_hp = [CHR 0xD7, CHR 0x9E, CHR 0xD7, CHR 0xA0, CHR 0xD7, CHR 0x94, CHR 0xD7,
                   CHR 0x9C] @ '' IT'',
        content = Contact
          ([CHR 0xD7, CHR 0x90, CHR 0xD7, CHR 0x93, CHR 0xD7, CHR 0x9E, CHR 0xD7, CHR 0x99,
            CHR 0xD7, CHR 0x9F] @ '' '' @
           [CHR 0xD7, CHR 0x9E, CHR 0xD7, CHR 0xA2, CHR 0xD7, CHR 0xA8, CHR 0xD7, CHR 0x9B,
            CHR 0xD7, CHR 0x95, CHR 0xD7, CHR 0xAA])
          ''+972-50-1234567'' ''admin@company.co.il'',
        created = now, triggered = False, triggerCount = 0\<rparr>,
      \<lparr>id_hp = ''file_1'', type_hp = file_hp, name_hp = ''passwords_backup.txt'',
        content = Text (''admin:P@ssw0rd123'' @ [CHR 0x0A] @ ''root:SuperSecret2024''),
        created = now, triggered = False, triggerCount = 0\<rparr>,
      \<lparr>id_hp = ''photo_1'', type_hp = photo_hp, name_hp = ''credit_card.jpg'',
        content = Text ''fake_credit_card_image_data'',
        created = now, triggered = False, triggerCount = 0\<rparr>,
      \<lparr>id_hp = ''sms_1'', type_hp = sms_hp,
        name_hp = [CHR 0xD7, CHR 0xA7, CHR 0xD7, CHR 0x95, CHR 0xD7, CHR 0x93] @ '' '' @
                  [CHR 0xD7, CHR 0x90, CHR 0xD7, CHR 0x99, CHR 0xD7, CHR 0x9E, CHR 0xD7,
                   CHR 0x95, CHR 0xD7, CHR 0xAA] @ '' '' @
                  [CHR 0xD7, CHR 0x91, CHR 0xD7, CHR 0xA0, CHR 0xD7, CHR 0xA7],
        content = Text
          ([CHR 0xD7, CHR 0xA7, CHR 0xD7, CHR 0x95, CHR 0xD7, CHR 0x93] @ '' '' @
           [CHR 0xD7, CHR 0x94, CHR 0xD7, CHR 0x90, CHR 0xD7, CHR 0x99, CHR 0xD7, CHR 0x9E,
            CHR 0xD7, CHR 0x95, CHR 0xD7, CHR 0xAA] @ '' '' @
           [CHR 0xD7, CHR 0xA9, CHR 0xD7, CHR 0x9C, CHR 0xD7, CHR 0x9A] @ '': 123456''),
        created = now, triggered = False, triggerCount = 0\<rparr>]"

definition initializeHoneypots :: "HoneyNetEnv \<Rightarrow> HoneyNetMobileService \<Rightarrow> HoneyNetMobileService" where
  "initializeHoneypots env this =
     (if length (honeypots this) = 0
      then saveHoneypots env (this\<lparr>honeypots := default_honeypots (new_Date_hn env)\<rparr>)
      else this)"

text \<open>
  \<open>loadStoredData\<close> reads three entries one after the other inside one \<open>try\<close>: a
  read that throws ends the method, and what was assigned before stays assigned. The
  stored statistics are spread over the current ones; here they carry every field.
\<close>

definition loadStoredData :: "HoneyNetEnv \<Rightarrow> HoneyNetMobileService \<Rightarrow> HoneyNetMobileService" where
  "loadStoredData env this =
     (if getItem_throws_hn env ''honeynet_statistics'' then this
      else
        (let this1 = (case stored_honeynet_statistics this of
                        Some storedStats \<Rightarrow> this\<lparr>statistics := storedStats\<rparr>
                      | None \<Rightarrow> this)
         in if getItem_throws_hn env ''honeynet_honeypots'' then this1
            else
              (let this2 = (case stored_honeynet_honeypots this1 of
                              Some storedHoneypots \<Rightarrow> this1\<lparr>honeypots := storedHoneypots\<rparr>
                            | None \<Rightarrow> this1)
               in if getItem_throws_hn env ''honeynet_protection_active'' then this2
                  else this2\<lparr>isProtectionActive :=
                         (stored_honeynet_protection_active this2 = Some ''true'')\<rparr>)))"

text \<open>
  The methods of \<open>HoneyNetMobileService\<close> that assign to \<open>honeypots\<close> or to a
  property of a honeypot; no other method of the class does, and the public methods
  \<open>initialize\<close> and \<open>simulateAttack\<close> reach the honeypots by calling these.
  \<open>perform_mobile\<close> gives the state in which a method leaves the service, whether it
  returns or throws (\<open>triggerRandomHoneypot\<close> throws before it has assigned
  anything).
\<close>

datatype mobile_operation = LoadStoredData | InitializeHoneypots | TriggerRandomHoneypot

fun perform_mobile ::
  "HoneyNetEnv \<Rightarrow> mobile_operation \<Rightarrow> HoneyNetMobileService \<Rightarrow> HoneyNetMobileService" where
  "perform_mobile env LoadStoredData this = loadStoredData env this"
| "perform_mobile env InitializeHoneypots this = initializeHoneypots env this"
| "perform_mobile env TriggerRandomHoneypot this =
     (case triggerRandomHoneypot env this of Inl e \<Rightarrow> this | Inr this1 \<Rightarrow> this1)"

section \<open>QuantumService\<close>

datatype quantumState = superposition | entangled | collapsed | decoherent

datatype keyStrength = post_quantum_256 | post_quantum_512 | post_quantum_1024

datatype signatureType =
  quantum_brute_force | shor_algorithm | grover_search | quantum_mitm | decoherence_attack

datatype algorithm = kyber | dilithium | falcon | sphincs | mceliece

record QuantumCharacteristics =
  coherenceTime :: "rat option"
  entanglementDegree :: "rat option"
  quantumVolume :: "rat option"
  errorRate :: "rat option"

record QuantumAttackSignature =
  signatureId :: string
  signatureType :: signatureType
  confidence :: rat
  detectedAt :: int
  attackVector :: string
  quantumCharacteristics :: QuantumCharacteristics
  countermeasures :: "string list"

record HoneypotMetadata =
  createdAt_meta :: "int option"
  creator :: "string option"
  quantumNoise :: "rat option"

record QuantumHoneypot =
  honeypotId :: string
  quantumState :: quantumState
  entanglementPartner :: "string option"
  keyStrength :: keyStrength
  lastKeyRotation :: js_date
  attacksDetected :: int
  quantumSignatures :: "QuantumAttackSignature list"
  isActive :: bool
  location_hp :: string
  metadata_hp :: HoneypotMetadata

record QuantumKey =
  keyId :: string
  algorithm :: algorithm
  keySize :: int
  publicKey :: string
  privateKey :: string
  createdAt :: int
  expiresAt :: int
  usageCount :: int
  isCompromised :: bool

text \<open>
  The object that \<open>saveQuantumData\<close> writes under \<open>quantum_data\<close> and
  \<open>loadQuantumData\<close> reads back, after \<open>JSON.stringify\<close> and \<open>JSON.parse\<close>.
\<close>

record QuantumData =
  data_quantumHoneypots :: "QuantumHoneypot list"
  data_quantumKeys :: "QuantumKey list"
  data_attackSignatures :: "QuantumAttackSignature list"

text \<open>
  The state of \<open>QuantumServiceClass\<close> and the AsyncStorage entry \<open>quantum_data\<close>
  (\<open>None\<close>: no such entry). \<open>systemStatus\<close> is computed from the honeypots by
  \<open>updateSystemStatus\<close>, which cannot throw, and read by no operation below; it is
  not part of the record.
\<close>

record QuantumService =
  quantumHoneypots :: "QuantumHoneypot list"
  quantumKeys :: "QuantumKey list"
  attackSignatures :: "QuantumAttackSignature list"
  isQuantumSystemActive :: bool
  stored_quantum_data :: "QuantumData option"

text \<open>
  The \<open>attackData: any\<close> argument of \<open>detectQuantumAttack\<close>, as far as the code
  reads it: three numbers and a text, each possibly missing.
\<close>

record AttackData =
  coherenceTime_data :: "rat option"
  entanglementDegree_data :: "rat option"
  quantumVolume_data :: "rat option"
  vector :: "string option"

text \<open>
  The outside of one operation: the clock (one reading for the whole call), the random
  suffix of a generated id, the random key text of a given length, the value of
  \<open>Math.random()\<close> that \<open>injectQuantumNoise\<close> stores, whether
  \<open>Math.random() < 0.01\<close> holds at the draw made for the honeypot at a position,
  whether \<open>AsyncStorage.getItem\<close> and \<open>setItem\<close> throw, and the outcomes of the
  calls to the network: \<open>connectToQuantumNetwork\<close> gives \<open>result.success\<close>,
  \<open>getQuantumNetworkUpdates\<close> gives the \<open>attackSignatures\<close> of the updates
  (\<open>Some None\<close>: the updates have none), and \<open>None\<close> says that the call throws.
\<close>

record QuantumEnv =
  Date_now_q :: int
  random36_q :: string
  generateRandomKey :: "int \<Rightarrow> string"
  Math_random_q :: rat
  decoheres :: "nat \<Rightarrow> bool"
  getItem_throws_q :: bool
  setItem_throws_q :: bool
  connectToQuantumNetwork :: "bool option"
  getQuantumNetworkUpdates :: "QuantumAttackSignature list option option"
  disconnectFromQuantumNetwork_throws :: bool

subsection \<open>Array helpers\<close>

text \<open>The position of the element \<open>Array.prototype.find\<close> returns.\<close>

fun findIndex :: "('a \<Rightarrow> bool) \<Rightarrow> 'a list \<Rightarrow> nat option" where
  "findIndex P [] = None"
| "findIndex P (x # xs) =
     (if P x then Some 0 else (case findIndex P xs of None \<Rightarrow> None | Some i \<Rightarrow> Some (i + 1)))"

text \<open>An assignment to fields of the honeypot object at position \<open>i\<close>.\<close>

definition update_honeypot ::
  "nat \<Rightarrow> (QuantumHoneypot \<Rightarrow> QuantumHoneypot) \<Rightarrow> QuantumService \<Rightarrow> QuantumService" where
  "update_honeypot i f this =
     this\<lparr>quantumHoneypots := (quantumHoneypots this)[i := f (quantumHoneypots this ! i)]\<rparr>"

subsection \<open>saveQuantumData and loadQuantumData\<close>

text \<open>
  Both catch what the storage throws. What is read back is what was written, except that
  a \<open>Date\<close> comes back as a string.
\<close>

definition saveQuantumData :: "QuantumEnv \<Rightarrow> QuantumService \<Rightarrow> QuantumService" where
  "saveQuantumData env this =
     (if setItem_throws_q env then this
      else this\<lparr>stored_quantum_data := Some
             \<lparr>data_quantumHoneypots =
                map (\<lambda>h. h\<lparr>lastKeyRotation := stringified (lastKeyRotation h)\<rparr>)
                  (quantumHoneypots this),
              data_quantumKeys = quantumKeys this,
              data_attackSignatures = attackSignatures this\<rparr>\<rparr>)"

definition loadQuantumData :: "QuantumEnv \<Rightarrow> QuantumService \<Rightarrow> QuantumService" where
  "loadQuantumData env this =
     (if getItem_throws_q env then this
      else
        (case stored_quantum_data this of
           None \<Rightarrow> this
         | Some data \<Rightarrow>
             this\<lparr>quantumHoneypots := data_quantumHoneypots data,
                  quantumKeys := data_quantumKeys data,
                  attackSignatures := data_attackSignatures data\<rparr>))"

subsection \<open>Key generation and rotation\<close>

fun getKeySize :: "keyStrength \<Rightarrow> int" where
  "getKeySize post_quantum_256 = 256"
| "getKeySize post_quantum_512 = 512"
| "getKeySize post_quantum_1024 = 1024"

definition generatePostQuantumKeyPair :: "QuantumEnv \<Rightarrow> keyStrength \<Rightarrow> string \<times> string" where
  "generatePostQuantumKeyPair env strength =
     (let keySize = getKeySize strength;
          publicKey = generateRandomKey env (keySize div 2);
          privateKey = generateRandomKey env keySize
      in (publicKey, privateKey))"

fun algorithm_name :: "algorithm \<Rightarrow> string" where
  "algorithm_name kyber = ''kyber''"
| "algorithm_name dilithium = ''dilithium''"
| "algorithm_name falcon = ''falcon''"
| "algorithm_name sphincs = ''sphincs''"
| "algorithm_name mceliece = ''mceliece''"

definition startsWith :: "string \<Rightarrow> string \<Rightarrow> bool" where
  "startsWith s p = (take (length p) s = p)"

definition new_key :: "QuantumEnv \<Rightarrow> QuantumHoneypot \<Rightarrow> algorithm \<Rightarrow> QuantumKey" where
  "new_key env honeypot alg =
     (let keyPair = generatePostQuantumKeyPair env (keyStrength honeypot)
      in \<lparr>keyId = honeypotId honeypot @ ''_'' @ algorithm_name alg @ ''_'' @
                   Number_toString 10 (Date_now_q env),
          algorithm = alg,
          keySize = getKeySize (keyStrength honeypot),
          publicKey = fst keyPair,
          privateKey = snd keyPair,
          createdAt = Date_now_q env,
          expiresAt = Date_now_q env + 24 * 60 * 60 * 1000,
          usageCount = 0,
          isCompromised = False\<rparr>)"

definition generateQuantumKeys :: "QuantumEnv \<Rightarrow> QuantumHoneypot \<Rightarrow> QuantumService \<Rightarrow> QuantumService" where
  "generateQuantumKeys env honeypot this =
     this\<lparr>quantumKeys :=
       filter (\<lambda>key. \<not> startsWith (keyId key) (honeypotId honeypot)) (quantumKeys this)
       @ map (new_key env honeypot) [kyber, dilithium, falcon]\<rparr>"

text \<open>
  \<open>rotateQuantumKeys\<close>: the loop over the honeypots to rotate, given by their
  positions, then \<open>saveQuantumData\<close>. A missing or empty \<open>entanglementPartner\<close>
  is falsy, and so is a missing or empty \<open>honeypotId\<close> argument.
\<close>

definition rotate_partner :: "QuantumEnv \<Rightarrow> QuantumHoneypot \<Rightarrow> QuantumService \<Rightarrow> QuantumService" where
  "rotate_partner env honeypot this =
     (case entanglementPartner honeypot of
        None \<Rightarrow> this
      | Some p \<Rightarrow>
          if p = [] then this
          else
            (case findIndex (\<lambda>h. honeypotId h = p) (quantumHoneypots this) of
               None \<Rightarrow> this
             | Some j \<Rightarrow>
                 update_honeypot j (\<lambda>h. h\<lparr>lastKeyRotation := DateObject (Date_now_q env)\<rparr>)
                   (generateQuantumKeys env (quantumHoneypots this ! j) this)))"

fun rotate_loop :: "QuantumEnv \<Rightarrow> nat list \<Rightarrow> QuantumService \<Rightarrow> QuantumService" where
  "rotate_loop env [] this = this"
| "rotate_loop env (i # honeypotsToRotate) this =
     (let honeypot = quantumHoneypots this ! i;
          this1 = generateQuantumKeys env honeypot this;
          this2 = update_honeypot i
                    (\<lambda>h. h\<lparr>lastKeyRotation := DateObject (Date_now_q env)\<rparr>) this1;
          this3 = rotate_partner env (quantumHoneypots this2 ! i) this2
      in rotate_loop env honeypotsToRotate this3)"

definition rotateQuantumKeys :: "QuantumEnv \<Rightarrow> string option \<Rightarrow> QuantumService \<Rightarrow> QuantumService" where
  "rotateQuantumKeys env honeypotId_opt this =
     (let n = length (quantumHoneypots this);
          honeypotsToRotate =
            (case honeypotId_opt of
               None \<Rightarrow> [0..<n]
             | Some hid \<Rightarrow>
                 if hid = [] then [0..<n]
                 else filter (\<lambda>i. honeypotId (quantumHoneypots this ! i) = hid) [0..<n])
      in saveQuantumData env (rotate_loop env honeypotsToRotate this))"

subsection \<open>Attack analysis\<close>

text \<open>
  The confidence is written as the decimal number whose nearest double the code computes:
  each of the sums \<open>0 + 0.3\<close>, \<open>0 + 0.4\<close>, \<open>0.3 + 0.4\<close>, \<open>0.3 + 0.3\<close>,
  \<open>0.4 + 0.3\<close> and \<open>0.3 + 0.4 + 0.3\<close> of doubles is the double nearest to the
  decimal sum.
\<close>

record Indicators =
  isQuantumAttack :: bool
  attackType :: signatureType
  confidence_ind :: rat
  characteristics :: QuantumCharacteristics

definition positive :: "rat option \<Rightarrow> bool" where
  "positive v = (case v of None \<Rightarrow> False | Some x \<Rightarrow> x \<noteq> 0 \<and> x > 0)"

definition detectQuantumIndicators :: "AttackData \<Rightarrow> Indicators" where
  "detectQuantumIndicators attackData =
     (let indicators = \<lparr>isQuantumAttack = False, attackType = quantum_brute_force,
            confidence_ind = 0,
            characteristics = \<lparr>coherenceTime = None, entanglementDegree = None,
              quantumVolume = None, errorRate = None\<rparr>\<rparr>;
          indicators1 =
            (if positive (coherenceTime_data attackData) then
               indicators\<lparr>isQuantumAttack := True,
                 confidence_ind := confidence_ind indicators + 3 / 10,
                 characteristics := (characteristics indicators)
                   \<lparr>coherenceTime := coherenceTime_data attackData\<rparr>\<rparr>
             else indicators);
          indicators2 =
            (if positive (entanglementDegree_data attackData) then
               indicators1\<lparr>isQuantumAttack := True,
                 confidence_ind := confidence_ind indicators1 + 4 / 10,
                 characteristics := (characteristics indicators1)
                   \<lparr>entanglementDegree := entanglementDegree_data attackData\<rparr>\<rparr>
             else indicators1);
          indicators3 =
            (case quantumVolume_data attackData of
               None \<Rightarrow> indicators2
             | Some qv \<Rightarrow>
                 if qv \<noteq> 0 \<and> qv > 1 then
                   indicators2\<lparr>isQuantumAttack := True,
                     confidence_ind := confidence_ind indicators2 + 3 / 10,
                     characteristics := (characteristics indicators2)
                       \<lparr>quantumVolume := Some qv\<rparr>,
                     attackType :=
                       (if qv > 1000 then shor_algorithm
                        else if qv > 100 then grover_search
                        else attackType indicators2)\<rparr>
                 else indicators2)
      in indicators3)"

fun getCountermeasures :: "signatureType \<Rightarrow> string list" where
  "getCountermeasures quantum_brute_force =
     [''key_rotation'', ''increased_key_size'', ''quantum_noise_injection'']"
| "getCountermeasures shor_algorithm =
     [''post_quantum_crypto'', ''key_rotation'', ''quantum_entanglement'']"
| "getCountermeasures grover_search =
     [''doubled_key_size'', ''quantum_error_correction'', ''decoherence_induction'']"
| "getCountermeasures quantum_mitm =
     [''quantum_authentication'', ''entanglement_verification'', ''quantum_signatures'']"
| "getCountermeasures decoherence_attack =
     [''error_correction'', ''redundant_encoding'', ''environmental_isolation'']"

definition generateSignatureId :: "QuantumEnv \<Rightarrow> string" where
  "generateSignatureId env =
     ''qsig_'' @ Number_toString 10 (Date_now_q env) @ ''_'' @ random36_q env"

text \<open>
  \<open>attackData\<close> is \<open>None\<close> for \<open>null\<close> and \<open>undefined\<close>: reading a property of
  it throws, and \<open>analyzeQuantumAttack\<close> catches that and returns \<open>null\<close>.
\<close>

definition analyzeQuantumAttack :: "QuantumEnv \<Rightarrow> AttackData option \<Rightarrow> QuantumAttackSignature option" where
  "analyzeQuantumAttack env attackData_opt =
     (case attackData_opt of
        None \<Rightarrow> None
      | Some attackData \<Rightarrow>
          (let quantumIndicators = detectQuantumIndicators attackData
           in if isQuantumAttack quantumIndicators then
                Some \<lparr>signatureId = generateSignatureId env,
                      signatureType = attackType quantumIndicators,
                      confidence = confidence_ind quantumIndicators,
                      detectedAt = Date_now_q env,
                      attackVector =
                        (case vector attackData of
                           None \<Rightarrow> ''unknown''
                         | Some v \<Rightarrow> if v = [] then ''unknown'' else v),
                      quantumCharacteristics = characteristics quantumIndicators,
                      countermeasures = getCountermeasures (attackType quantumIndicators)\<rparr>
              else None))"

subsection \<open>Countermeasures\<close>

definition injectQuantumNoise :: "QuantumEnv \<Rightarrow> nat \<Rightarrow> QuantumService \<Rightarrow> QuantumService" where
  "injectQuantumNoise env i this =
     update_honeypot i
       (\<lambda>h. h\<lparr>metadata_hp := (metadata_hp h)\<lparr>quantumNoise := Some (Math_random_q env)\<rparr>\<rparr>) this"

definition induceDecoherence :: "nat \<Rightarrow> QuantumService \<Rightarrow> QuantumService" where
  "induceDecoherence i this =
     update_honeypot i
       (\<lambda>h. if quantumState h = superposition \<or> quantumState h = entangled
            then h\<lparr>quantumState := decoherent\<rparr> else h) this"

fun triggerQuantumCountermeasures ::
  "QuantumEnv \<Rightarrow> nat \<Rightarrow> string list \<Rightarrow> QuantumService \<Rightarrow> QuantumService" where
  "triggerQuantumCountermeasures env i [] this = this"
| "triggerQuantumCountermeasures env i (countermeasure # rest) this =
     triggerQuantumCountermeasures env i rest
       (if countermeasure = ''key_rotation'' then
          rotateQuantumKeys env (Some (honeypotId (quantumHoneypots this ! i))) this
        else if countermeasure = ''quantum_noise_injection'' then injectQuantumNoise env i this
        else if countermeasure = ''decoherence_induction'' then induceDecoherence i this
        else this)"

subsection \<open>detectQuantumAttack\<close>

text \<open>
  The result is the signature returned (\<open>None\<close>: \<open>null\<close>) and the state
  afterwards. \<open>honeypot.attacksDetected += 1\<close> is an addition of doubles.
  \<open>reportQuantumAttack\<close>, which ends the method on an active system, writes to the
  network only and catches what the call throws.
\<close>

definition detectQuantumAttack ::
  "QuantumEnv \<Rightarrow> string \<Rightarrow> AttackData option \<Rightarrow> QuantumService
     \<Rightarrow> QuantumAttackSignature option \<times> QuantumService" where
  "detectQuantumAttack env hid attackData this =
     (case findIndex (\<lambda>h. honeypotId h = hid) (quantumHoneypots this) of
        None \<Rightarrow> (None, this)
      | Some i \<Rightarrow>
          (case analyzeQuantumAttack env attackData of
             None \<Rightarrow> (None, this)
           | Some sig \<Rightarrow>
               (let this1 = update_honeypot i
                      (\<lambda>h. h\<lparr>quantumSignatures := quantumSignatures h @ [sig]\<rparr>) this;
                    this2 = update_honeypot i
                      (\<lambda>h. h\<lparr>attacksDetected := plus_one (attacksDetected h)\<rparr>) this1;
                    this3 = this2\<lparr>attackSignatures := attackSignatures this2 @ [sig]\<rparr>;
                    this4 = triggerQuantumCountermeasures env i (countermeasures sig) this3;
                    this5 = saveQuantumData env this4
                in (Some sig, this5))))"

subsection \<open>mergeAttackSignatures\<close>

text \<open>
  The loop over the network signatures, then the limit: \<open>slice(-500)\<close> keeps the
  last 500 signatures.
\<close>

fun merge_loop :: "QuantumAttackSignature list \<Rightarrow> QuantumAttackSignature list \<Rightarrow> QuantumAttackSignature list" where
  "merge_loop [] stored = stored"
| "merge_loop (sig # networkSignatures) stored =
     (let exists = list_ex (\<lambda>s. signatureId s = signatureId sig) stored
      in merge_loop networkSignatures (if \<not> exists then stored @ [sig] else stored))"

definition mergeAttackSignatures :: "QuantumAttackSignature list \<Rightarrow> QuantumService \<Rightarrow> QuantumService" where
  "mergeAttackSignatures networkSignatures this =
     (let merged = merge_loop networkSignatures (attackSignatures this)
      in this\<lparr>attackSignatures :=
           (if length merged > 1000 then drop (length merged - 500) merged else merged)\<rparr>)"

subsection \<open>Synchronisation with the network\<close>

text \<open>
  \<open>syncWithQuantumNetwork\<close> and \<open>initializeQuantumSystem\<close> catch what the network
  calls throw. An array of signatures is truthy, also when it is empty.
\<close>

definition syncWithQuantumNetwork :: "QuantumEnv \<Rightarrow> QuantumService \<Rightarrow> QuantumService" where
  "syncWithQuantumNetwork env this =
     (if \<not> isQuantumSystemActive this then this
      else
        (case getQuantumNetworkUpdates env of
           None \<Rightarrow> this
         | Some networkUpdates \<Rightarrow>
             (case networkUpdates of
                None \<Rightarrow> this
              | Some networkSignatures \<Rightarrow> mergeAttackSignatures networkSignatures this)))"

definition initializeQuantumSystem :: "QuantumEnv \<Rightarrow> QuantumService \<Rightarrow> QuantumService" where
  "initializeQuantumSystem env this =
     (case connectToQuantumNetwork env of
        None \<Rightarrow> this\<lparr>isQuantumSystemActive := False\<rparr>
      | Some success \<Rightarrow>
          (let this1 = this\<lparr>isQuantumSystemActive := success\<rparr>
           in if isQuantumSystemActive this1 then syncWithQuantumNetwork env this1 else this1))"

definition initialize :: "QuantumEnv \<Rightarrow> QuantumService \<Rightarrow> QuantumService" where
  "initialize env this = initializeQuantumSystem env (loadQuantumData env this)"

subsection \<open>createQuantumHoneypot, entangleHoneypots and measureQuantumState\<close>

definition generateHoneypotId :: "QuantumEnv \<Rightarrow> string" where
  "generateHoneypotId env =
     ''qhp_'' @ Number_toString 10 (Date_now_q env) @ ''_'' @ random36_q env"

text \<open>
  \<open>keyStrength_opt\<close> is \<open>None\<close> when the argument is left out and the default
  applies. Nothing in the body throws; \<open>registerHoneypotWithNetwork\<close>, called on an
  active system, writes to the network only and catches what the call throws.
\<close>

definition createQuantumHoneypot ::
  "QuantumEnv \<Rightarrow> string \<Rightarrow> keyStrength option \<Rightarrow> QuantumService \<Rightarrow> string \<times> QuantumService" where
  "createQuantumHoneypot env location keyStrength_opt this =
     (let honeypot =
            \<lparr>honeypotId = generateHoneypotId env,
             quantumState = superposition,
             entanglementPartner = None,
             keyStrength =
               (case keyStrength_opt of None \<Rightarrow> post_quantum_256 | Some strength \<Rightarrow> strength),
             lastKeyRotation = DateObject (Date_now_q env),
             attacksDetected = 0,
             quantumSignatures = [],
             isActive = True,
             location_hp = location,
             metadata_hp = \<lparr>createdAt_meta = Some (Date_now_q env),
               creator = Some ''mobile_client'', quantumNoise = None\<rparr>\<rparr>;
          this1 = generateQuantumKeys env honeypot this;
          this2 = this1\<lparr>quantumHoneypots := quantumHoneypots this1 @ [honeypot]\<rparr>;
          this3 = saveQuantumData env this2
      in (honeypotId honeypot, this3))"

text \<open>
  When one of the two honeypots is not found, the error thrown is caught and the result
  is \<open>false\<close>. \<open>notifyEntanglement\<close> writes to the network only and catches what
  the call throws.
\<close>

definition entangleHoneypots ::
  "QuantumEnv \<Rightarrow> string \<Rightarrow> string \<Rightarrow> QuantumService \<Rightarrow> bool \<times> QuantumService" where
  "entangleHoneypots env honeypotId1 honeypotId2 this =
     (case findIndex (\<lambda>h. honeypotId h = honeypotId1) (quantumHoneypots this) of
        None \<Rightarrow> (False, this)
      | Some i \<Rightarrow>
          (case findIndex (\<lambda>h. honeypotId h = honeypotId2) (quantumHoneypots this) of
             None \<Rightarrow> (False, this)
           | Some j \<Rightarrow>
               (let this1 = update_honeypot i
                      (\<lambda>h. h\<lparr>quantumState := entangled,
                             entanglementPartner := Some honeypotId2\<rparr>) this;
                    this2 = update_honeypot j
                      (\<lambda>h. h\<lparr>quantumState := entangled,
                             entanglementPartner := Some honeypotId1\<rparr>) this1;
                    this3 = saveQuantumData env this2
                in (True, this3))))"

text \<open>
  When the honeypot is not found, the error thrown is caught and the result is
  \<open>decoherent\<close>.
\<close>

definition measureQuantumState ::
  "QuantumEnv \<Rightarrow> string \<Rightarrow> QuantumService \<Rightarrow> quantumState \<times> QuantumService" where
  "measureQuantumState env hid this =
     (case findIndex (\<lambda>h. honeypotId h = hid) (quantumHoneypots this) of
        None \<Rightarrow> (decoherent, this)
      | Some i \<Rightarrow>
          if quantumState (quantumHoneypots this ! i) = superposition then
            (let this1 = update_honeypot i (\<lambda>h. h\<lparr>quantumState := collapsed\<rparr>) this;
                 this2 =
                   (case entanglementPartner (quantumHoneypots this1 ! i) of
                      None \<Rightarrow> this1
                    | Some p \<Rightarrow>
                        if p = [] then this1
                        else
                          (case findIndex (\<lambda>h. honeypotId h = p) (quantumHoneypots this1) of
                             None \<Rightarrow> this1
                           | Some j \<Rightarrow>
                               update_honeypot j (\<lambda>h. h\<lparr>quantumState := collapsed\<rparr>) this1));
                 this3 = saveQuantumData env this2
             in (quantumState (quantumHoneypots this3 ! i), this3))
          else (quantumState (quantumHoneypots this ! i), this))"

subsection \<open>The periodic processes and cleanup\<close>

text \<open>
  The hourly callback set up by \<open>startQuantumProcesses\<close>. It calls \<open>getTime()\<close>
  on \<open>lastKeyRotation\<close> outside any \<open>try\<close>: at a honeypot whose date is a string
  the callback ends with a \<open>TypeError\<close>, and what it did before stays done.
\<close>

fun keyRotation_loop ::
  "QuantumEnv \<Rightarrow> nat list \<Rightarrow> QuantumService \<Rightarrow> (error + unit) \<times> QuantumService" where
  "keyRotation_loop env [] this = (Inr (), this)"
| "keyRotation_loop env (i # positions) this =
     (let honeypot = quantumHoneypots this ! i
      in case getTime (lastKeyRotation honeypot) of
           Inl e \<Rightarrow> (Inl e, this)
         | Inr rotated \<Rightarrow>
             (let timeSinceRotation = Date_now_q env - rotated;
                  rotationInterval = 24 * 60 * 60 * 1000
              in keyRotation_loop env positions
                   (if timeSinceRotation > rotationInterval
                    then rotateQuantumKeys env (Some (honeypotId honeypot)) this
                    else this)))"

definition keyRotationProcess :: "QuantumEnv \<Rightarrow> QuantumService \<Rightarrow> (error + unit) \<times> QuantumService" where
  "keyRotationProcess env this =
     keyRotation_loop env [0..<length (quantumHoneypots this)] this"

text \<open>The callback that runs every five minutes.\<close>

definition quantumSyncProcess :: "QuantumEnv \<Rightarrow> QuantumService \<Rightarrow> QuantumService" where
  "quantumSyncProcess env this =
     (if isQuantumSystemActive this then syncWithQuantumNetwork env this
      else initializeQuantumSystem env this)"

text \<open>The callback that runs every minute.\<close>

definition decoherenceProcess :: "QuantumEnv \<Rightarrow> QuantumService \<Rightarrow> QuantumService" where
  "decoherenceProcess env this =
     this\<lparr>quantumHoneypots :=
       map (\<lambda>(k, honeypot).
              if quantumState honeypot = superposition \<and> decoheres env k
              then honeypot\<lparr>quantumState := decoherent\<rparr> else honeypot)
         (enumerate 0 (quantumHoneypots this))\<rparr>"

text \<open>
  \<open>cleanup\<close> saves, disconnects an active system and clears the memory; when the
  disconnection throws, the error is caught and the memory is not cleared.
\<close>

definition cleanup :: "QuantumEnv \<Rightarrow> QuantumService \<Rightarrow> QuantumService" where
  "cleanup env this =
     (let this1 = saveQuantumData env this
      in if isQuantumSystemActive this1 \<and> disconnectFromQuantumNetwork_throws env then this1
         else this1\<lparr>quantumHoneypots := [], quantumKeys := [], attackSignatures := [],
                isQuantumSystemActive := False\<rparr>)"

subsection \<open>The operations of the service\<close>

text \<open>
  The public methods and the periodic callbacks that assign to \<open>quantumHoneypots\<close> or
  to a property of a honeypot, or that call a method which does, with their arguments; the
  remaining public methods (the four getters) do neither. \<open>perform\<close> gives the state
  in which an operation leaves the service, whether it returns or throws.
\<close>

datatype quantum_operation =
    Initialize
  | CreateQuantumHoneypot string "keyStrength option"
  | EntangleHoneypots string string
  | DetectQuantumAttack string "AttackData option"
  | RotateQuantumKeys "string option"
  | MeasureQuantumState string
  | KeyRotationProcess
  | QuantumSyncProcess
  | DecoherenceProcess
  | Cleanup

fun perform :: "QuantumEnv \<Rightarrow> quantum_operation \<Rightarrow> QuantumService \<Rightarrow> QuantumService" where
  "perform env Initialize this = initialize env this"
| "perform env (CreateQuantumHoneypot location keyStrength_opt) this =
     snd (createQuantumHoneypot env location keyStrength_opt this)"
| "perform env (EntangleHoneypots honeypotId1 honeypotId2) this =
     snd (entangleHoneypots env honeypotId1 honeypotId2 this)"
| "perform env (DetectQuantumAttack hid attackData) this =
     snd (detectQuantumAttack env hid attackData this)"
| "perform env (RotateQuantumKeys honeypotId_opt) this = rotateQuantumKeys env honeypotId_opt this"
| "perform env (MeasureQuantumState hid) this = snd (measureQuantumState env hid this)"
| "perform env KeyRotationProcess this = snd (keyRotationProcess env this)"
| "perform env QuantumSyncProcess this = quantumSyncProcess env this"
| "perform env DecoherenceProcess this = decoherenceProcess env this"
| "perform env Cleanup this = cleanup env this"

section \<open>SwarmService\<close>

datatype trailType = threat | safe | resource | danger

text \<open>
  Numbers are doubles; a finite double is written as the real number it is. The product
  and the quotient of two doubles are rounded, and \<open>Math.exp\<close> is an approximation
  that the language leaves to the implementation: the three are parameters of the model,
  and what is proved holds for every choice of them. The difference of two time values is
  exact, and so is a negation. Infinities and \<open>NaN\<close> are not modelled.
\<close>

record Arithmetic =
  number_times :: "real \<Rightarrow> real \<Rightarrow> real"
  number_divide :: "real \<Rightarrow> real \<Rightarrow> real"
  Math_exp :: "real \<Rightarrow> real"

text \<open>The arithmetic without rounding.\<close>

definition exact_arithmetic :: Arithmetic where
  "exact_arithmetic = \<lparr>number_times = (\<lambda>a b. a * b), number_divide = (\<lambda>a b. a / b),
     Math_exp = (\<lambda>a. exp a)\<rparr>"

text \<open>The double that the literal \<open>0.01\<close> denotes.\<close>

definition literal_0_01 :: real where
  "literal_0_01 = 5764607523034235 / 2 ^ 59"

record PheromoneTrail =
  trailId :: string
  trailType :: trailType
  strength :: real
  location :: string
  createdBy :: string
  timestamp :: js_date
  decayRate :: real
  metadata_trail :: "(string \<times> string) list"

text \<open>
  The state of \<open>SwarmServiceClass\<close>. Agents, tasks and the collective intelligence
  are type parameters: \<open>getPheromoneTrails\<close> does not look inside them.
\<close>

record ('agent, 'task, 'intelligence) SwarmService =
  localAgent :: "'agent option"
  nearbyAgents :: "'agent list"
  activeTasks :: "'task list"
  pheromoneTrails :: "PheromoneTrail list"
  swarmIntelligence :: 'intelligence
  isConnectedToSwarm :: bool

text \<open>
  \<open>now\<close> is the value of \<open>Date.now()\<close>. On a trail whose \<open>timestamp\<close> is a
  string (a trail that \<open>loadSwarmData\<close> read from the storage) the call of
  \<open>getTime()\<close> throws.
\<close>

definition calculateDecayedStrength :: "Arithmetic \<Rightarrow> int \<Rightarrow> PheromoneTrail \<Rightarrow> error + real" where
  "calculateDecayedStrength ar now trail =
     (case getTime (timestamp trail) of
        Inl e \<Rightarrow> Inl e
      | Inr laid \<Rightarrow>
          (let ageInHours = number_divide ar (real_of_int (now - laid)) (1000 * 60 * 60)
           in Inr (number_times ar (strength trail)
                     (Math_exp ar (number_times ar (- decayRate trail) ageInHours)))))"

text \<open>
  The \<open>map\<close> that applies the decay, trail by trail from position \<open>k\<close> on:
  \<open>Date_now_at k\<close> is the clock reading taken for the trail at position \<open>k\<close>. The
  first trail on which \<open>calculateDecayedStrength\<close> throws ends it.
\<close>

fun apply_decay ::
  "Arithmetic \<Rightarrow> (nat \<Rightarrow> int) \<Rightarrow> nat \<Rightarrow> PheromoneTrail list \<Rightarrow> error + PheromoneTrail list" where
  "apply_decay ar Date_now_at k [] = Inr []"
| "apply_decay ar Date_now_at k (trail # trails) =
     (case calculateDecayedStrength ar (Date_now_at k) trail of
        Inl e \<Rightarrow> Inl e
      | Inr decayed \<Rightarrow>
          (case apply_decay ar Date_now_at (Suc k) trails of
             Inl e \<Rightarrow> Inl e
           | Inr rest \<Rightarrow> Inr (trail\<lparr>strength := decayed\<rparr> # rest)))"

text \<open>
  \<open>trailType\<close> and \<open>location\<close> are optional arguments (\<open>None\<close>: left out); an
  empty \<open>location\<close> is falsy. The comparison function of the sort orders by
  descending strength; the sort is stable. The method has no \<open>try\<close>: what
  \<open>calculateDecayedStrength\<close> throws rejects the call. It assigns to nothing.
\<close>

definition getPheromoneTrails ::
  "Arithmetic \<Rightarrow> (nat \<Rightarrow> int) \<Rightarrow> trailType option \<Rightarrow> string option
     \<Rightarrow> ('agent, 'task, 'intelligence) SwarmService
     \<Rightarrow> (error + PheromoneTrail list) \<times> ('agent, 'task, 'intelligence) SwarmService" where
  "getPheromoneTrails ar Date_now_at trailType_opt location_opt this =
     (let trails = pheromoneTrails this
      in case apply_decay ar Date_now_at 0 trails of
           Inl e \<Rightarrow> (Inl e, this)
         | Inr decayed \<Rightarrow>
             (let trails1 = filter (\<lambda>trail. strength trail > literal_0_01) decayed;
                  trails2 =
                    (case trailType_opt of
                       None \<Rightarrow> trails1
                     | Some ty \<Rightarrow> filter (\<lambda>trail. trailType trail = ty) trails1);
                  trails3 =
                    (case location_opt of
                       None \<Rightarrow> trails2
                     | Some loc \<Rightarrow>
                         if loc = [] then trails2
                         else filter (\<lambda>trail. location trail = loc) trails2);
                  trails4 = sort_key (\<lambda>trail. - strength trail) trails3
              in (Inr trails4, this)))"

section \<open>Notions used in the statements\<close>

text \<open>The persisted threat log, as \<open>logThreat\<close> reads it: no entry is the empty log.\<close>

definition threat_log :: "HoneyNetMobileService \<Rightarrow> ThreatEvent list" where
  "threat_log this = (case stored_honeynet_threats this of Some l \<Rightarrow> l | None \<Rightarrow> [])"

text \<open>
  The ids of the records whose \<open>submitToNetwork\<close> call succeeds, when the records
  \<open>rs\<close> are submitted one after the other and the first call is call number \<open>k\<close>.
\<close>

definition submitted_ids :: "BlockchainEnv \<Rightarrow> nat \<Rightarrow> ThreatRecord list \<Rightarrow> string set" where
  "submitted_ids env k rs =
     {id_rec r | j r. (j, r) \<in> set (enumerate k rs) \<and> \<not> network_throws env j}"

text \<open>Identifier and counter of every quantum honeypot, in list order.\<close>

definition ids_counts :: "QuantumService \<Rightarrow> (string \<times> int) list" where
  "ids_counts this = map (\<lambda>h. (honeypotId h, attacksDetected h)) (quantumHoneypots this)"

text \<open>The id the record appended by \<open>submitThreatRecord\<close> carries.\<close>

definition assigned_id :: "BlockchainEnv \<Rightarrow> SubmittedData \<Rightarrow> BlockchainService \<Rightarrow> string" where
  "assigned_id env threatData this =
     id_rec (last (pendingThreatRecords (snd (submitThreatRecord env threatData this))))"

text \<open>
  An argument object for \<open>submitThreatRecord\<close>: the six fields \<open>d\<close> and the own
  \<open>id\<close> property \<open>i\<close> (\<open>None\<close>: no such property, as the parameter type
  declares).
\<close>

definition submitted :: "string option \<Rightarrow> ThreatData \<Rightarrow> SubmittedData" where
  "submitted i d = ThreatData.extend d (SubmittedData.fields i)"

section \<open>Example inputs\<close>

subsection \<open>Blockchain\<close>

definition report_a :: ThreatData where
  "report_a = \<lparr>threatType = ''malware'', severity = ''high'', sourceIp = ''203.0.113.7'',
     targetIp = ''10.0.0.5'', signature = ''sig-1'', metadata = []\<rparr>"

definition report_b :: ThreatData where
  "report_b = \<lparr>threatType = ''phishing'', severity = ''low'', sourceIp = ''198.51.100.9'',
     targetIp = ''10.0.0.6'', signature = ''sig-2'', metadata = []\<rparr>"

definition env_first :: BlockchainEnv where
  "env_first = \<lparr>Date_now = 1700000000000, random36 = ''k3x9'', new_Date = 1700000000000,
     setItem_throws = False, network_throws = (\<lambda>k. False)\<rparr>"

definition env_later :: BlockchainEnv where
  "env_later = \<lparr>Date_now = 1700000000001, random36 = ''k3x9'', new_Date = 1700000000001,
     setItem_throws = False, network_throws = (\<lambda>k. False)\<rparr>"

definition env_same_instant :: BlockchainEnv where
  "env_same_instant = \<lparr>Date_now = 1700000000000, random36 = ''k3x9'',
     new_Date = 1700000000000, setItem_throws = True, network_throws = (\<lambda>k. True)\<rparr>"

definition env_second_call_fails :: BlockchainEnv where
  "env_second_call_fails = \<lparr>Date_now = 1700000000002, random36 = ''zz'',
     new_Date = 1700000000002, setItem_throws = False, network_throws = (\<lambda>k. k = 1)\<rparr>"

definition fresh_service :: BlockchainService where
  "fresh_service = \<lparr>localChain = [], pendingThreatRecords = [], isConnected = False,
     nodeId = ''node_1'', stored_local_blockchain = None,
     stored_pending_threat_records = None\<rparr>"

definition record_a :: ThreatRecord where
  "record_a = ThreatData.extend report_a
     (ThreatRecord.fields ''threat_1700000000000_k3x9'' 1700000000000)"

definition record_b :: ThreatRecord where
  "record_b = ThreatData.extend report_b
     (ThreatRecord.fields ''threat_1700000000000_k3x9'' 1700000000000)"

definition record_c :: ThreatRecord where
  "record_c = ThreatData.extend report_b
     (ThreatRecord.fields ''threat_1700000000001_k3x9'' 1700000000001)"

text \<open>Two pending records that carry the same id, and two that do not.\<close>

definition service_same_ids :: BlockchainService where
  "service_same_ids = fresh_service\<lparr>pendingThreatRecords := [record_a, record_b],
     isConnected := True\<rparr>"

definition service_distinct_ids :: BlockchainService where
  "service_distinct_ids = fresh_service\<lparr>pendingThreatRecords := [record_a, record_c],
     isConnected := True\<rparr>"

text \<open>
  The example blocks carry no threat records, so the serialisation of a record is never
  applied to them; any one does.
\<close>

definition example_ser :: "ThreatRecord \<Rightarrow> string" where
  "example_ser r = stringify_string (id_rec r)"

definition genesis_block :: Block where
  "genesis_block = \<lparr>blockNumber = 0, blockHash = ''0'', previousHash = [],
     timestamp_blk = 1700000000000, threatRecords = [], minerId = ''node_a'', nonce = 0,
     merkleRoot = []\<rparr>"

definition second_block :: Block where
  "second_block = \<lparr>blockNumber = 1, blockHash = ''e81a855'', previousHash = ''0'',
     timestamp_blk = 1700000000001, threatRecords = [], minerId = ''node_a'', nonce = 7,
     merkleRoot = []\<rparr>"

definition local_block :: Block where
  "local_block = \<lparr>blockNumber = 0, blockHash = ''abc'', previousHash = [],
     timestamp_blk = 1690000000000, threatRecords = [], minerId = ''node_b'', nonce = 1,
     merkleRoot = []\<rparr>"

definition service_local_chain :: BlockchainService where
  "service_local_chain = fresh_service\<lparr>localChain := [local_block], isConnected := True\<rparr>"

subsection \<open>Threat log and mobile honeypots\<close>

definition event :: "int \<Rightarrow> ThreatEvent" where
  "event n = \<lparr>id_ev = ''sim_'' @ Number_toString 10 n, timestamp_ev = n, type_ev = malware,
     severity_ev = high, description_ev = ''simulated'', source = ''192.168.1.100'',
     blocked = True\<rparr>"

definition contact_honeypot :: MobileHoneypot where
  "contact_honeypot = \<lparr>id_hp = ''contact_1'', type_hp = contact_hp, name_hp = ''IT admin'',
     content = Contact ''admin'' ''+972-50-1234567'' ''admin@company.co.il'', created = 0,
     triggered = True, triggerCount = 2\<rparr>"

definition file_honeypot :: MobileHoneypot where
  "file_honeypot = \<lparr>id_hp = ''file_1'', type_hp = file_hp, name_hp = ''passwords_backup.txt'',
     content = Text ''admin:P@ssw0rd123'', created = 0, triggered = False, triggerCount = 0\<rparr>"

definition mobile_service :: "ThreatEvent list \<Rightarrow> HoneyNetMobileService" where
  "mobile_service stored = \<lparr>isInitialized = True, isProtectionActive = True,
     honeypots = [contact_honeypot, file_honeypot],
     statistics = \<lparr>threatsDetected_stat = 0, attacksBlocked = 0, activeHoneypots_stat = 0,
        networkNodes = ''1.2M+'', uptime = 0, lastUpdate = 0\<rparr>,
     stored_honeynet_threats = Some stored,
     stored_honeynet_honeypots = Some [contact_honeypot, file_honeypot],
     stored_honeynet_statistics = None,
     stored_honeynet_protection_active = Some ''true''\<rparr>"

text \<open>The same service after \<open>file_honeypot\<close> was triggered and the honeypots saved.\<close>

definition mobile_service_triggered :: HoneyNetMobileService where
  "mobile_service_triggered = (mobile_service [])\<lparr>
     honeypots := [contact_honeypot, file_honeypot\<lparr>triggered := True, triggerCount := 1\<rparr>],
     stored_honeynet_honeypots :=
       Some [contact_honeypot, file_honeypot\<lparr>triggered := True, triggerCount := 1\<rparr>]\<rparr>"

text \<open>
  An outside where the storage works and \<open>Math.random()\<close> gives \<open>0.5\<close>, and one
  where writing to the storage throws.
\<close>

definition mobile_env :: HoneyNetEnv where
  "mobile_env = \<lparr>random_index = (\<lambda>n. int n div 2), getItem_throws_hn = (\<lambda>key. False),
     setItem_throws_hn = False, new_Date_hn = 1700000000000\<rparr>"

definition mobile_env_no_write :: HoneyNetEnv where
  "mobile_env_no_write = mobile_env\<lparr>setItem_throws_hn := True\<rparr>"

subsection \<open>Quantum honeypots and signatures\<close>

definition stored_signature :: "nat \<Rightarrow> QuantumAttackSignature" where
  "stored_signature n = \<lparr>signatureId = ''qsig_'' @ Number_toString 10 (int n) @ ''_x'',
     signatureType = quantum_brute_force, confidence = 3 / 10, detectedAt = int n,
     attackVector = ''unknown'',
     quantumCharacteristics = \<lparr>coherenceTime = Some 1, entanglementDegree = None,
       quantumVolume = None, errorRate = None\<rparr>,
     countermeasures = getCountermeasures quantum_brute_force\<rparr>"

definition network_signature :: QuantumAttackSignature where
  "network_signature = (stored_signature 0)\<lparr>signatureId := ''net_1''\<rparr>"

text \<open>
  A network signature that carries the id of \<open>stored_signature 1\<close> and is otherwise
  different.
\<close>

definition known_signature :: QuantumAttackSignature where
  "known_signature = (stored_signature 1)\<lparr>attackVector := ''network''\<rparr>"

text \<open>
  A service with one honeypot that has detected \<open>n\<close> attacks, with the given
  signatures and nothing in the storage.
\<close>

definition quantum_honeypot :: "int \<Rightarrow> QuantumHoneypot" where
  "quantum_honeypot n =
     \<lparr>honeypotId = ''qhp_1'', quantumState = superposition, entanglementPartner = None,
      keyStrength = post_quantum_256, lastKeyRotation = DateObject 0, attacksDetected = n,
      quantumSignatures = [], isActive = True, location_hp = ''lab'',
      metadata_hp = \<lparr>createdAt_meta = Some 0, creator = Some ''mobile_client'',
        quantumNoise = None\<rparr>\<rparr>"

definition quantum_service :: "QuantumAttackSignature list \<Rightarrow> QuantumService" where
  "quantum_service sigs = \<lparr>quantumHoneypots = [quantum_honeypot 3],
     quantumKeys = [], attackSignatures = sigs, isQuantumSystemActive = False,
     stored_quantum_data = None\<rparr>"

definition quantum_service_at_limit :: QuantumService where
  "quantum_service_at_limit = (quantum_service [])\<lparr>quantumHoneypots := [quantum_honeypot (2 ^ 53)]\<rparr>"

text \<open>
  An outside where the storage works and the network calls throw, and one where writing
  to the storage throws as well.
\<close>

definition quantum_env :: QuantumEnv where
  "quantum_env = \<lparr>Date_now_q = 1700000000000, random36_q = ''r1'',
     generateRandomKey = (\<lambda>size. replicate (nat size) (CHR ''A'')), Math_random_q = 1 / 4,
     decoheres = (\<lambda>k. False), getItem_throws_q = False, setItem_throws_q = False,
     connectToQuantumNetwork = None, getQuantumNetworkUpdates = None,
     disconnectFromQuantumNetwork_throws = True\<rparr>"

definition quantum_env_no_write :: QuantumEnv where
  "quantum_env_no_write = quantum_env\<lparr>setItem_throws_q := True\<rparr>"

definition attack :: AttackData where
  "attack = \<lparr>coherenceTime_data = Some 5, entanglementDegree_data = None,
     quantumVolume_data = None, vector = None\<rparr>"

subsection \<open>Swarm and player\<close>

text \<open>
  Three trails laid ten hours before the clock reading \<open>36000000\<close>, with the decay
  rate that \<open>depositPheromone\<close> gives every trail (the double that \<open>0.1\<close>
  denotes), and strengths \<open>1\<close>, \<open>2\<close> and \<open>1 / 64\<close>.
\<close>

definition literal_0_1 :: real where
  "literal_0_1 = 3602879701896397 / 2 ^ 55"

definition trail :: "string \<Rightarrow> real \<Rightarrow> string \<Rightarrow> PheromoneTrail" where
  "trail i s l = \<lparr>trailId = i, trailType = threat, strength = s, location = l,
     createdBy = ''unknown'', timestamp = DateObject 0, decayRate = literal_0_1,
     metadata_trail = []\<rparr>"

definition swarm_service :: "(unit, unit, unit) SwarmService" where
  "swarm_service = \<lparr>localAgent = None, nearbyAgents = [], activeTasks = [],
     pheromoneTrails = [trail ''trail_1'' 1 ''A'', trail ''trail_2'' 2 ''A'',
       trail ''trail_3'' (1 / 64) ''A''],
     swarmIntelligence = (), isConnectedToSwarm = False\<rparr>"

definition first_threat :: Achievement where
  "first_threat = \<lparr>id_ach = ''first_threat'', name_ach = ''First Blood'',
     description_ach = ''Detected your first threat'', icon = ''shield-check'',
     unlockedAt = 0, rarity = common, points = 50\<rparr>"

definition threat_hunter :: Achievement where
  "threat_hunter = \<lparr>id_ach = ''threat_hunter'', name_ach = ''Threat Hunter'',
     description_ach = ''Detected 10 threats'', icon = ''crosshairs'',
     unlockedAt = 0, rarity = rare, points = 200\<rparr>"

definition player :: PlayerStats where
  "player = \<lparr>playerId = ''p1'', level = 1, totalPoints = 60, threatsDetected = 1,
     honeypotsTriggered = 0, currentLeague = ''Bronze'', achievements = [first_threat],
     nftBadges = []\<rparr>"

definition game_service :: GamificationService where
  "game_service = \<lparr>playerStats = Some player, achievements_service = [],
     leaderboard = None\<rparr>"

section \<open>GamificationService: achievements and points\<close>

text \<open>
  C10. \<open>unlockAchievement\<close> is idempotent per achievement id. For a player whose
  achievements already hold an achievement with the id of \<open>x\<close>, the call changes
  nothing: neither the achievements nor \<open>totalPoints\<close>. Otherwise \<open>x\<close> is appended,
  once (afterwards exactly one achievement carries its id), and its points are added to
  \<open>totalPoints\<close> once. Unlocking twice is the same as unlocking once, so a repeated
  check awards no second entry and no second lot of points.
\<close>

theorem unlockAchievement_idempotent:
  assumes "playerStats this = Some ps"
  shows "((\<exists>a \<in> set (achievements ps). id_ach a = id_ach x) \<longrightarrow>
            unlockAchievement x this = this)
       \<and> ((\<forall>a \<in> set (achievements ps). id_ach a \<noteq> id_ach x) \<longrightarrow>
            (\<exists>ps'. playerStats (unlockAchievement x this) = Some ps'
                 \<and> achievements ps' = achievements ps @ [x]
                 \<and> totalPoints ps' = totalPoints ps + points x
                 \<and> length (filter (\<lambda>a. id_ach a = id_ach x) (achievements ps')) = 1))
       \<and> unlockAchievement x (unlockAchievement x this) = unlockAchievement x this"
  using assms
  by (auto simp: unlockAchievement_def list_ex_iff Let_def filter_empty_conv)

theorem unlockAchievement_idempotent_witness:
  "unlockAchievement first_threat game_service = game_service
   \<and> (\<exists>ps'. playerStats (unlockAchievement threat_hunter game_service) = Some ps'
          \<and> achievements ps' = [first_threat, threat_hunter] \<and> totalPoints ps' = 260)
   \<and> unlockAchievement threat_hunter (unlockAchievement threat_hunter game_service) =
       unlockAchievement threat_hunter game_service"
proof -
  have ps: "playerStats game_service = Some player"
    by (simp add: game_service_def)
  have held: "\<exists>a \<in> set (achievements player). id_ach a = id_ach first_threat"
    by (simp add: player_def)
  have new: "\<forall>a \<in> set (achievements player). id_ach a \<noteq> id_ach threat_hunter"
    by (simp add: player_def first_threat_def threat_hunter_def)
  have vals: "achievements player @ [threat_hunter] = [first_threat, threat_hunter]"
    "totalPoints player + points threat_hunter = 260"
    by (simp_all add: player_def threat_hunter_def)
  from unlockAchievement_idempotent [OF ps, of first_threat] held
  have "unlockAchievement first_threat game_service = game_service"
    by blast
  moreover from unlockAchievement_idempotent [OF ps, of threat_hunter] new
  have "(\<exists>ps'. playerStats (unlockAchievement threat_hunter game_service) = Some ps'
          \<and> achievements ps' = achievements player @ [threat_hunter]
          \<and> totalPoints ps' = totalPoints player + points threat_hunter)
     \<and> unlockAchievement threat_hunter (unlockAchievement threat_hunter game_service) =
         unlockAchievement threat_hunter game_service"
    by blast
  ultimately show ?thesis
    unfolding vals by blast
qed

text \<open>
  For a severity and a threat type that are not names of inherited properties,
  \<open>calculateThreatPoints\<close> is the rounded product of the two table entries, with the
  defaults 10 and 1 for a key that is in neither table.
\<close>

lemma calculateThreatPoints_tables:
  assumes "sev \<notin> set Object_prototype_keys" "ty \<notin> set Object_prototype_keys"
  shows "calculateThreatPoints ty sev =
     Finite (of_int \<lfloor>(case map_of basePoints sev of Some b \<Rightarrow> b | None \<Rightarrow> 10) *
                      (case map_of typeMultiplier ty of Some m \<Rightarrow> m | None \<Rightarrow> 1) + 1 / 2\<rfloor>)"
proof -
  have b: "or_else (get_property basePoints sev) (JNumber 10) =
      JNumber (case map_of basePoints sev of Some b \<Rightarrow> b | None \<Rightarrow> 10)"
    using assms(1)
    by (auto simp: or_else_def get_property_def basePoints_def split: option.splits if_splits)
  have m: "or_else (get_property typeMultiplier ty) (JNumber 1) =
      JNumber (case map_of typeMultiplier ty of Some m \<Rightarrow> m | None \<Rightarrow> 1)"
    using assms(2)
    by (auto simp: or_else_def get_property_def typeMultiplier_def split: option.splits if_splits)
  show ?thesis
    by (simp add: calculateThreatPoints_def b m)
qed

lemma calculateThreatPoints_examples:
  "calculateThreatPoints ''phishing'' ''medium'' = Finite 28"
  "calculateThreatPoints ''sql_injection'' ''critical'' = Finite 140"
  "calculateThreatPoints ''port_scan'' ''severe'' = Finite 10"
  by code_simp+

text \<open>
  C6. \<open>calculateThreatPoints\<close> is to return \<open>Math.round(base * multiplier)\<close> with
  the default base 10 for every severity that is not in the table. The severity
  \<open>constructor\<close> is not in the table, but \<open>basePoints[severity]\<close> finds the property of
  that name that every object inherits: a function, which is truthy, so the default is
  not taken, the product is \<open>NaN\<close> and the result is \<open>NaN\<close>, where the claim gives
  \<open>Math.round(10 * 1.2) = 12\<close>.
\<close>

theorem calculateThreatPoints_inherited_key:
  "calculateThreatPoints ''malware'' ''constructor'' = NaN"
  by code_simp

section \<open>BlockchainService: chain validation\<close>

lemma validateChain_loop_iff:
  "validateChain_loop ser chain i \<longleftrightarrow>
     (\<forall>j. i \<le> j \<and> j < length chain \<longrightarrow>
        previousHash (chain ! j) = blockHash (chain ! (j - 1)) \<and>
        calculateBlockHash ser (chain ! j) = blockHash (chain ! j))"
proof (induction ser chain i rule: validateChain_loop.induct)
  case (1 ser chain i)
  show ?case
  proof (cases "i < length chain")
    case False
    then show ?thesis
      by (subst validateChain_loop.simps) auto
  next
    case True
    note lt = this
    show ?thesis
    proof (cases "previousHash (chain ! i) = blockHash (chain ! (i - 1)) \<and>
        calculateBlockHash ser (chain ! i) = blockHash (chain ! i)")
      case False
      with lt show ?thesis
        by (subst validateChain_loop.simps) (auto simp: Let_def)
    next
      case True
      with lt 1 have "validateChain_loop ser chain i \<longleftrightarrow>
        (\<forall>j. i + 1 \<le> j \<and> j < length chain \<longrightarrow>
          previousHash (chain ! j) = blockHash (chain ! (j - 1)) \<and>
          calculateBlockHash ser (chain ! j) = blockHash (chain ! j))"
        by (subst validateChain_loop.simps) (simp add: Let_def)
      also have "\<dots> \<longleftrightarrow> (\<forall>j. i \<le> j \<and> j < length chain \<longrightarrow>
        previousHash (chain ! j) = blockHash (chain ! (j - 1)) \<and>
        calculateBlockHash ser (chain ! j) = blockHash (chain ! j))"
      proof
        assume later: "\<forall>j. i + 1 \<le> j \<and> j < length chain \<longrightarrow>
          previousHash (chain ! j) = blockHash (chain ! (j - 1)) \<and>
          calculateBlockHash ser (chain ! j) = blockHash (chain ! j)"
        show "\<forall>j. i \<le> j \<and> j < length chain \<longrightarrow>
          previousHash (chain ! j) = blockHash (chain ! (j - 1)) \<and>
          calculateBlockHash ser (chain ! j) = blockHash (chain ! j)"
        proof (intro allI impI)
          fix j assume j: "i \<le> j \<and> j < length chain"
          show "previousHash (chain ! j) = blockHash (chain ! (j - 1)) \<and>
            calculateBlockHash ser (chain ! j) = blockHash (chain ! j)"
          proof (cases "j = i")
            case True
            then show ?thesis using \<open>previousHash (chain ! i) = blockHash (chain ! (i - 1)) \<and>
              calculateBlockHash ser (chain ! i) = blockHash (chain ! i)\<close> by simp
          next
            case False
            with j have "i + 1 \<le> j \<and> j < length chain" by simp
            with later show ?thesis by blast
          qed
        qed
      next
        assume "\<forall>j. i \<le> j \<and> j < length chain \<longrightarrow>
          previousHash (chain ! j) = blockHash (chain ! (j - 1)) \<and>
          calculateBlockHash ser (chain ! j) = blockHash (chain ! j)"
        then show "\<forall>j. i + 1 \<le> j \<and> j < length chain \<longrightarrow>
          previousHash (chain ! j) = blockHash (chain ! (j - 1)) \<and>
          calculateBlockHash ser (chain ! j) = blockHash (chain ! j)"
          by simp
      qed
      finally show ?thesis .
    qed
  qed
qed

lemma second_block_hash: "calculateBlockHash example_ser second_block = ''e81a855''"
  by code_simp

lemma local_block_hash: "calculateBlockHash example_ser local_block \<noteq> blockHash local_block"
  by code_simp

lemma example_chain_valid: "validateChain example_ser [genesis_block, second_block]"
  by code_simp

text \<open>
  C9. \<open>validateChain(chain)\<close> returns true if and only if every block from index 1 on
  names the stored hash of its predecessor as its \<open>previousHash\<close> and has the hash
  \<open>calculateBlockHash\<close> computes for it as its stored \<open>blockHash\<close>. The stored hash
  of the first block is compared with nothing, so the empty chain and every chain of one
  block are valid.
\<close>

theorem validateChain_iff:
  "(validateChain ser chain \<longleftrightarrow>
      (\<forall>i. 1 \<le> i \<and> i < length chain \<longrightarrow>
         previousHash (chain ! i) = blockHash (chain ! (i - 1)) \<and>
         calculateBlockHash ser (chain ! i) = blockHash (chain ! i)))
   \<and> validateChain ser [] \<and> validateChain ser [b]"
proof -
  have "validateChain ser chain \<longleftrightarrow>
      (\<forall>i. 1 \<le> i \<and> i < length chain \<longrightarrow>
         previousHash (chain ! i) = blockHash (chain ! (i - 1)) \<and>
         calculateBlockHash ser (chain ! i) = blockHash (chain ! i))"
  proof (cases "length chain = 0")
    case True
    then show ?thesis by (simp add: validateChain_def)
  next
    case False
    then have "validateChain ser chain = validateChain_loop ser chain 1"
      by (simp add: validateChain_def)
    then show ?thesis by (simp only: validateChain_loop_iff)
  qed
  moreover have "validateChain ser []"
    by (simp add: validateChain_def)
  moreover have "validateChain ser [b]"
    by (simp add: validateChain_def validateChain_loop_iff)
  ultimately show ?thesis by (intro conjI)
qed

theorem validateChain_iff_witness:
  "validateChain example_ser [genesis_block, second_block]
   \<and> \<not> validateChain example_ser [genesis_block, local_block]
   \<and> validateChain example_ser [local_block]
   \<and> calculateBlockHash example_ser local_block \<noteq> blockHash local_block"
proof -
  have links: "\<forall>i. 1 \<le> i \<and> i < length [genesis_block, second_block] \<longrightarrow>
      previousHash ([genesis_block, second_block] ! i) =
        blockHash ([genesis_block, second_block] ! (i - 1)) \<and>
      calculateBlockHash example_ser ([genesis_block, second_block] ! i) =
        blockHash ([genesis_block, second_block] ! i)"
  proof (intro allI impI)
    fix i :: nat
    assume "1 \<le> i \<and> i < length [genesis_block, second_block]"
    then have "i = 1" by simp
    then show "previousHash ([genesis_block, second_block] ! i) =
        blockHash ([genesis_block, second_block] ! (i - 1)) \<and>
      calculateBlockHash example_ser ([genesis_block, second_block] ! i) =
        blockHash ([genesis_block, second_block] ! i)"
      by (simp add: second_block_hash) (simp add: second_block_def genesis_block_def)
  qed
  have broken: "\<not> (\<forall>i. 1 \<le> i \<and> i < length [genesis_block, local_block] \<longrightarrow>
      previousHash ([genesis_block, local_block] ! i) =
        blockHash ([genesis_block, local_block] ! (i - 1)) \<and>
      calculateBlockHash example_ser ([genesis_block, local_block] ! i) =
        blockHash ([genesis_block, local_block] ! i))"
  proof
    assume "\<forall>i. 1 \<le> i \<and> i < length [genesis_block, local_block] \<longrightarrow>
      previousHash ([genesis_block, local_block] ! i) =
        blockHash ([genesis_block, local_block] ! (i - 1)) \<and>
      calculateBlockHash example_ser ([genesis_block, local_block] ! i) =
        blockHash ([genesis_block, local_block] ! i)"
    from this [THEN spec, of 1]
    have "calculateBlockHash example_ser local_block = blockHash local_block"
      by simp
    then show False using local_block_hash by (rule notE [rotated])
  qed
  note valid = validateChain_iff [of example_ser "[genesis_block, second_block]" local_block]
  note invalid = validateChain_iff [of example_ser "[genesis_block, local_block]" local_block]
  have "validateChain example_ser [genesis_block, second_block]"
    using valid [THEN conjunct1] links by (rule iffD2)
  moreover have "\<not> validateChain example_ser [genesis_block, local_block]"
    unfolding invalid [THEN conjunct1] by (rule broken)
  moreover have "validateChain example_ser [local_block]"
    by (rule valid [THEN conjunct2, THEN conjunct2])
  ultimately show ?thesis
    using local_block_hash by (intro conjI)
qed

section \<open>BlockchainService: identifiers, merging and pending records\<close>

lemma pending_submitThreatRecord:
  "pendingThreatRecords (snd (submitThreatRecord env d this)) =
     pendingThreatRecords this @
       [ThreatData.extend (ThreatData.truncate d)
          (ThreatRecord.fields
             (case own_id d of None \<Rightarrow> generateThreatId env | Some i \<Rightarrow> i) (new_Date env))]"
  by (simp add: submitThreatRecord_def Let_def savePendingRecords_def submitToNetwork_def)

lemma id_rec_extend:
  "id_rec (ThreatData.extend d (ThreatRecord.fields i t)) = i"
  by (simp add: ThreatData.extend_def ThreatRecord.fields_def)

lemma assigned_id_cases:
  "assigned_id env d this = (case own_id d of None \<Rightarrow> generateThreatId env | Some i \<Rightarrow> i)"
  by (simp add: assigned_id_def pending_submitThreatRecord id_rec_extend)

lemma fst_submitThreatRecord:
  "fst (submitThreatRecord env d this) = Inr (assigned_id env d this)
   \<or> fst (submitThreatRecord env d this) = Inl Error"
  by (simp add: assigned_id_cases submitThreatRecord_def Let_def savePendingRecords_def
      submitToNetwork_def id_rec_extend)

lemma own_id_submitted [simp]: "own_id (submitted i d) = i"
  by (simp add: submitted_def ThreatData.extend_def SubmittedData.fields_def)

lemma truncate_submitted [simp]: "ThreatData.truncate (submitted i d) = d"
  by (simp add: submitted_def ThreatData.extend_def ThreatData.truncate_def
      SubmittedData.fields_def)

text \<open>
  An own \<open>id\<close> property of the argument object replaces the generated identifier:
  the parameter type declares no such property, and the spread that copies the argument
  is written after the generated \<open>id\<close>.
\<close>

lemma own_id_replaces_generated_id:
  "assigned_id env_first (submitted (Some ''chosen-by-caller'') report_a) fresh_service =
     ''chosen-by-caller''
   \<and> fst (submitThreatRecord env_first (submitted (Some ''chosen-by-caller'') report_a)
        fresh_service) = Inr ''chosen-by-caller''"
  by (simp add: assigned_id_cases submitThreatRecord_def Let_def savePendingRecords_def
      fresh_service_def id_rec_extend)

text \<open>
  C1, as the code has it. For an argument object as the parameter type declares it, with
  the six fields and no \<open>id\<close> property of its own, the identifier
  \<open>submitThreatRecord\<close> assigns to the record it appends is \<open>threat_\<close>, the clock
  reading in milliseconds, \<open>_\<close> and a random suffix; when the call returns, it returns
  this identifier. So the identifier is a function of the clock reading and of the random
  draw: two such submissions with the same clock reading and the same random draw get the
  same identifier, whatever the fields of the two reports and the states of the service.
\<close>

theorem assigned_id_from_clock_and_random:
  assumes "own_id d1 = None" "own_id d2 = None"
    and "Date_now env1 = Date_now env2" "random36 env1 = random36 env2"
  shows "assigned_id env1 d1 s1 = assigned_id env2 d2 s2
     \<and> assigned_id env1 d1 s1 =
         ''threat_'' @ Number_toString 10 (Date_now env1) @ ''_'' @ random36 env1
     \<and> (fst (submitThreatRecord env1 d1 s1) = Inr (assigned_id env1 d1 s1)
          \<or> fst (submitThreatRecord env1 d1 s1) = Inl Error)"
  using assms fst_submitThreatRecord [of env1 d1 s1]
  by (simp add: assigned_id_cases generateThreatId_def Let_def)

theorem assigned_id_from_clock_and_random_witness:
  "own_id (submitted None report_a) = None \<and> own_id (submitted None report_b) = None
   \<and> Date_now env_first = Date_now env_same_instant
   \<and> random36 env_first = random36 env_same_instant
   \<and> assigned_id env_first (submitted None report_a) fresh_service =
       assigned_id env_same_instant (submitted None report_b) service_distinct_ids
   \<and> assigned_id env_first (submitted None report_a) fresh_service =
       ''threat_1700000000000_k3x9''"
proof -
  have own: "own_id (submitted None report_a) = None" "own_id (submitted None report_b) = None"
    by simp_all
  have outside: "Date_now env_first = Date_now env_same_instant"
    "random36 env_first = random36 env_same_instant"
    by (simp_all add: env_first_def env_same_instant_def)
  have spelled: "''threat_'' @ Number_toString 10 (Date_now env_first) @ ''_'' @ random36 env_first
      = ''threat_1700000000000_k3x9''"
    by code_simp
  note ids = assigned_id_from_clock_and_random
    [OF own outside, of fresh_service service_distinct_ids]
  have same: "assigned_id env_first (submitted None report_a) fresh_service =
       assigned_id env_same_instant (submitted None report_b) service_distinct_ids"
    using ids by (rule conjunct1)
  have "assigned_id env_first (submitted None report_a) fresh_service =
      ''threat_'' @ Number_toString 10 (Date_now env_first) @ ''_'' @ random36 env_first"
    using ids by blast
  then have "assigned_id env_first (submitted None report_a) fresh_service =
      ''threat_1700000000000_k3x9''"
    by (simp only: spelled)
  with own outside same show ?thesis
    by blast
qed

text \<open>
  C1 as stated fails: the same report, submitted to the same service one
  millisecond later, gets another identifier.
\<close>

theorem same_report_different_id:
  "assigned_id env_first (submitted None report_a) fresh_service = ''threat_1700000000000_k3x9''
   \<and> assigned_id env_later (submitted None report_a) fresh_service =
       ''threat_1700000000001_k3x9''
   \<and> fst (submitThreatRecord env_first (submitted None report_a) fresh_service) \<noteq>
       fst (submitThreatRecord env_later (submitted None report_a) fresh_service)"
  by code_simp

lemma localChain_mergeChains:
  "localChain (mergeChains ser env networkBlocks this) =
     (if length (localChain this) < length networkBlocks \<and> validateChain ser networkBlocks
      then networkBlocks else localChain this)"
  by (simp add: mergeChains_def saveLocalChain_def Let_def)

text \<open>
  C4, as the code has it. \<open>mergeChains\<close> replaces \<open>localChain\<close> by
  \<open>networkBlocks\<close> when \<open>networkBlocks\<close> is strictly longer and valid, and leaves it
  unchanged otherwise. So a block of \<open>localChain\<close> is still in \<open>localChain\<close> after
  the call if and only if the chain was not replaced or the block is one of
  \<open>networkBlocks\<close> too.
\<close>

theorem mergeChains_replaces_or_keeps:
  "localChain (mergeChains ser env networkBlocks this) =
     (if length (localChain this) < length networkBlocks \<and> validateChain ser networkBlocks
      then networkBlocks else localChain this)
   \<and> (\<forall>b \<in> set (localChain this).
         b \<in> set (localChain (mergeChains ser env networkBlocks this)) \<longleftrightarrow>
         (\<not> (length (localChain this) < length networkBlocks \<and> validateChain ser networkBlocks)
          \<or> b \<in> set networkBlocks))"
  by (simp add: localChain_mergeChains)

theorem mergeChains_replaces_or_keeps_witness:
  "genesis_block \<in> set (localChain (mergeChains example_ser env_first
       [genesis_block, second_block] (fresh_service\<lparr>localChain := [genesis_block]\<rparr>)))
   \<and> local_block \<in> set (localChain (mergeChains example_ser env_first
       [genesis_block, local_block, second_block] service_local_chain))"
proof -
  have "genesis_block \<in> set (localChain (fresh_service\<lparr>localChain := [genesis_block]\<rparr>))"
    and "genesis_block \<in> set [genesis_block, second_block]"
    by simp_all
  then have first: "genesis_block \<in> set (localChain (mergeChains example_ser env_first
       [genesis_block, second_block] (fresh_service\<lparr>localChain := [genesis_block]\<rparr>)))"
    using mergeChains_replaces_or_keeps [of example_ser env_first
        "[genesis_block, second_block]" "fresh_service\<lparr>localChain := [genesis_block]\<rparr>"]
    by blast
  have "local_block \<in> set (localChain service_local_chain)"
    and "local_block \<in> set [genesis_block, local_block, second_block]"
    by (simp_all add: service_local_chain_def)
  then have "local_block \<in> set (localChain (mergeChains example_ser env_first
       [genesis_block, local_block, second_block] service_local_chain))"
    using mergeChains_replaces_or_keeps [of example_ser env_first
        "[genesis_block, local_block, second_block]" service_local_chain]
    by blast
  with first show ?thesis by (rule conjI)
qed

text \<open>
  C4 as stated fails: a service whose local chain is the one block
  \<open>local_block\<close> receives the valid chain of two other blocks, and \<open>local_block\<close> is
  gone.
\<close>

theorem mergeChains_drops_local_block:
  "local_block \<in> set (localChain service_local_chain)
   \<and> local_block \<notin> set (localChain (mergeChains example_ser env_first
        [genesis_block, second_block] service_local_chain))"
proof -
  have "localChain (mergeChains example_ser env_first [genesis_block, second_block]
          service_local_chain) = [genesis_block, second_block]"
    using example_chain_valid
    by (simp add: localChain_mergeChains service_local_chain_def)
  moreover have "local_block \<noteq> genesis_block" "local_block \<noteq> second_block"
    by (simp_all add: local_block_def genesis_block_def second_block_def)
  ultimately show ?thesis
    by (simp add: service_local_chain_def)
qed

lemma submitted_ids_Cons:
  "submitted_ids env k (r # rs) =
     (if network_throws env k then {} else {id_rec r}) \<union> submitted_ids env (Suc k) rs"
  by (auto simp: submitted_ids_def)

lemma pending_submitPending_loop:
  "pendingThreatRecords (submitPending_loop env k rs this) =
     filter (\<lambda>r. id_rec r \<notin> submitted_ids env k rs) (pendingThreatRecords this)"
proof (induction rs arbitrary: k this)
  case Nil
  then show ?case by (simp add: submitted_ids_def)
next
  case (Cons r rs)
  show ?case
    by (auto simp: submitToNetwork_def Cons.IH submitted_ids_Cons intro!: filter_cong)
qed

lemma in_submitted_ids:
  "x \<in> submitted_ids env 0 rs \<longleftrightarrow>
     (\<exists>j. j < length rs \<and> \<not> network_throws env j \<and> id_rec (rs ! j) = x)"
proof
  assume "x \<in> submitted_ids env 0 rs"
  then obtain j r where "(j, r) \<in> set (enumerate 0 rs)" "\<not> network_throws env j" "x = id_rec r"
    unfolding submitted_ids_def by blast
  then show "\<exists>j. j < length rs \<and> \<not> network_throws env j \<and> id_rec (rs ! j) = x"
    by (auto simp: in_set_enumerate_eq)
next
  assume "\<exists>j. j < length rs \<and> \<not> network_throws env j \<and> id_rec (rs ! j) = x"
  then obtain j where j: "j < length rs" "\<not> network_throws env j" "id_rec (rs ! j) = x"
    by blast
  then have "(j, rs ! j) \<in> set (enumerate 0 rs)"
    by (simp add: in_set_enumerate_eq)
  with j show "x \<in> submitted_ids env 0 rs"
    unfolding submitted_ids_def by blast
qed

lemma distinct_id_in_submitted:
  assumes "distinct (map id_rec rs)" "j < length rs"
  shows "id_rec (rs ! j) \<in> submitted_ids env 0 rs \<longleftrightarrow> \<not> network_throws env j"
proof
  assume "id_rec (rs ! j) \<in> submitted_ids env 0 rs"
  then obtain j' where j': "j' < length rs" "\<not> network_throws env j'"
      "id_rec (rs ! j') = id_rec (rs ! j)"
    unfolding in_submitted_ids by blast
  then have "map id_rec rs ! j' = map id_rec rs ! j"
    using assms by simp
  moreover have "j' < length (map id_rec rs)" "j < length (map id_rec rs)"
    using assms j' by simp_all
  ultimately have "j' = j"
    using nth_eq_iff_index_eq [OF assms(1), of j' j] by blast
  then show "\<not> network_throws env j"
    using j' by simp
next
  assume "\<not> network_throws env j"
  then show "id_rec (rs ! j) \<in> submitted_ids env 0 rs"
    unfolding in_submitted_ids using assms by blast
qed

lemma filter_by_position:
  "map snd (filter (\<lambda>p. P (snd p)) (enumerate k xs)) = filter P xs"
  by (induction xs arbitrary: k) auto

text \<open>
  What \<open>submitPendingRecords\<close> leaves pending, whatever the ids: on a connected
  service, the records whose id is not the id of a record submitted successfully.
\<close>

lemma pending_submitPendingRecords:
  "pendingThreatRecords (submitPendingRecords env this) =
     (if isConnected this
      then filter (\<lambda>r. id_rec r \<notin> submitted_ids env 0 (pendingThreatRecords this))
             (pendingThreatRecords this)
      else pendingThreatRecords this)"
proof (cases "isConnected this \<and> pendingThreatRecords this \<noteq> []")
  case True
  have "pendingThreatRecords (savePendingRecords env s) = pendingThreatRecords s" for s
    by (simp add: savePendingRecords_def)
  with True show ?thesis
    by (simp add: submitPendingRecords_def Let_def pending_submitPending_loop)
next
  case False
  then show ?thesis
    by (auto simp: submitPendingRecords_def)
qed

text \<open>
  Where the retry of failed submissions works. \<open>submitPendingRecords\<close> removes a record from
  the pending list by its id. When the pending records have pairwise different ids and
  the service is connected, the record at position \<open>j\<close> of the pending list is absent
  afterwards if and only if its \<open>submitToNetwork\<close> call (the \<open>j\<close>-th call)
  succeeded, and the pending list afterwards consists of the records whose submission
  threw, unchanged and in their order. On a service that is not connected nothing is
  submitted and the pending list stays as it is.
\<close>

lemma submitPendingRecords_distinct_ids:
  assumes "distinct (map id_rec (pendingThreatRecords this))"
  shows "(isConnected this \<longrightarrow>
           (\<forall>j < length (pendingThreatRecords this).
              pendingThreatRecords this ! j
                \<notin> set (pendingThreatRecords (submitPendingRecords env this))
              \<longleftrightarrow> \<not> network_throws env j)
         \<and> pendingThreatRecords (submitPendingRecords env this) =
             map snd (filter (\<lambda>(j, r). network_throws env j)
               (enumerate 0 (pendingThreatRecords this))))
     \<and> (\<not> isConnected this \<longrightarrow>
           pendingThreatRecords (submitPendingRecords env this) = pendingThreatRecords this)"
proof -
  let ?P = "pendingThreatRecords this"
  let ?keep = "\<lambda>r. id_rec r \<notin> submitted_ids env 0 ?P"
  have pos: "?keep (snd p) \<longleftrightarrow> network_throws env (fst p)"
    if "p \<in> set (enumerate 0 ?P)" for p
  proof -
    from that have "fst p < length ?P" "snd p = ?P ! fst p"
      by (auto simp: in_set_enumerate_eq)
    then show ?thesis
      using distinct_id_in_submitted [OF assms, of "fst p" env] by simp
  qed
  have "filter (\<lambda>p. ?keep (snd p)) (enumerate 0 ?P)
        = filter (\<lambda>p. network_throws env (fst p)) (enumerate 0 ?P)"
    using pos by (intro filter_cong) simp_all
  then have "map snd (filter (\<lambda>p. ?keep (snd p)) (enumerate 0 ?P))
        = map snd (filter (\<lambda>(j, r). network_throws env j) (enumerate 0 ?P))"
    by (simp only: case_prod_unfold)
  then have eq: "filter ?keep ?P
      = map snd (filter (\<lambda>(j, r). network_throws env j) (enumerate 0 ?P))"
    using filter_by_position [of ?keep 0 ?P] by simp
  have mem: "?P ! j \<notin> set (filter ?keep ?P) \<longleftrightarrow> \<not> network_throws env j"
    if "j < length ?P" for j
    using that distinct_id_in_submitted [OF assms that, of env] by simp
  show ?thesis
  proof (cases "isConnected this")
    case True
    then show ?thesis
      using eq mem by (simp add: pending_submitPendingRecords)
  next
    case False
    then show ?thesis
      by (simp add: pending_submitPendingRecords)
  qed
qed

lemma submitPendingRecords_distinct_ids_example:
  "pendingThreatRecords (submitPendingRecords env_second_call_fails service_distinct_ids) =
     [record_c]
   \<and> record_a \<notin> set (pendingThreatRecords
        (submitPendingRecords env_second_call_fails service_distinct_ids))"
proof -
  have pending: "pendingThreatRecords service_distinct_ids = [record_a, record_c]"
    and connected: "isConnected service_distinct_ids"
    by (simp_all add: service_distinct_ids_def)
  have "distinct (map id_rec (pendingThreatRecords service_distinct_ids))"
    by (simp add: pending record_a_def record_c_def id_rec_extend)
  from submitPendingRecords_distinct_ids [OF this, of env_second_call_fails] connected
  have "pendingThreatRecords (submitPendingRecords env_second_call_fails service_distinct_ids) =
      map snd (filter (\<lambda>(j, r). network_throws env_second_call_fails j)
        (enumerate 0 (pendingThreatRecords service_distinct_ids)))"
    by blast
  also have "\<dots> = [record_c]"
    by (simp add: pending env_second_call_fails_def)
  finally have result: "pendingThreatRecords
      (submitPendingRecords env_second_call_fails service_distinct_ids) = [record_c]" .
  moreover have "record_a \<noteq> record_c"
    by (simp add: record_a_def record_c_def ThreatData.extend_def ThreatRecord.fields_def)
  ultimately show ?thesis by simp
qed

text \<open>
  Two pending records with the same id arise in two ways: two reports are submitted at
  the same clock reading and with the same random draw, or a record that is pending is
  submitted again, with its \<open>id\<close>, as a reporter does who resends it.
\<close>

lemma same_ids_reachable:
  "pendingThreatRecords (snd (submitThreatRecord env_first (submitted None report_b)
       (snd (submitThreatRecord env_first (submitted None report_a) fresh_service)))) =
     pendingThreatRecords service_same_ids"
  by code_simp

lemma resent_record_same_id:
  "map id_rec (pendingThreatRecords (snd (submitThreatRecord env_later
       (submitted (Some (id_rec record_a)) report_a)
       (snd (submitThreatRecord env_first (submitted None report_a) fresh_service))))) =
     [''threat_1700000000000_k3x9'', ''threat_1700000000000_k3x9'']"
  by code_simp

text \<open>
  C7: a record whose submission threw stays in the pending list. The code does not keep
  to it. \<open>submitPendingRecords\<close> removes a submitted record by filtering the pending
  list on the id, so it removes every pending record with that id: of two pending records
  with the same id, the first is submitted successfully, the submission of the second
  (call number 1) throws, and the second is absent from the pending list all the same,
  against the comment \<open>Keep in pending for next attempt\<close> in the \<open>catch\<close> branch.
\<close>

theorem submitPendingRecords_same_id_dropped:
  "pendingThreatRecords service_same_ids ! 1 = record_b
   \<and> network_throws env_second_call_fails 1
   \<and> record_b \<notin> set (pendingThreatRecords
        (submitPendingRecords env_second_call_fails service_same_ids))"
  by code_simp

theorem submitPendingRecords_same_id_dropped_witness:
  "isConnected service_same_ids
   \<and> pendingThreatRecords service_same_ids = [record_a, record_b]
   \<and> id_rec record_a = id_rec record_b
   \<and> \<not> network_throws env_second_call_fails 0
   \<and> network_throws env_second_call_fails 1
   \<and> record_b \<notin> set (pendingThreatRecords
        (submitPendingRecords env_second_call_fails service_same_ids))"
  using submitPendingRecords_same_id_dropped
  by (simp add: service_same_ids_def env_second_call_fails_def record_a_def record_b_def
      id_rec_extend)

section \<open>HoneyNetMobileService and QuantumService: stored records\<close>

lemma threat_log_logThreat:
  "threat_log (logThreat env thr this) =
     (if getItem_throws_hn env ''honeynet_threats'' \<or> setItem_throws_hn env then threat_log this
      else drop (length (threat_log this) + 1 - 100) (threat_log this @ [thr]))"
  by (auto simp: logThreat_def threat_log_def Let_def)

text \<open>
  What the loop of \<open>mergeAttackSignatures\<close> appends: the network signatures whose id
  is neither stored nor carried by an earlier network signature, in their order.
\<close>

lemma merge_loop_appends:
  "merge_loop ns stored =
     stored @ map snd (filter (\<lambda>(j, s). signatureId s \<notin> signatureId ` set stored
                                  \<and> signatureId s \<notin> signatureId ` set (take j ns))
                         (enumerate 0 ns))"
proof (induction ns arbitrary: stored)
  case Nil
  then show ?case by simp
next
  case (Cons sig ns)
  have shift: "enumerate 0 (sig # ns) = (0, sig) # map (\<lambda>(j, s). (Suc j, s)) (enumerate 0 ns)"
    by (simp add: enumerate_Suc_eq apfst_def map_prod_def case_prod_unfold)
  show ?case
  proof (cases "list_ex (\<lambda>s. signatureId s = signatureId sig) stored")
    case True
    then obtain s0 where "s0 \<in> set stored" "signatureId s0 = signatureId sig"
      unfolding list_ex_iff by blast
    then have known: "signatureId sig \<in> signatureId ` set stored"
      by (metis imageI)
    have "filter (\<lambda>(j, s). signatureId s \<notin> signatureId ` set stored
                   \<and> signatureId s \<notin> signatureId ` set (take j (sig # ns)))
            (map (\<lambda>(j, s). (Suc j, s)) (enumerate 0 ns))
        = map (\<lambda>(j, s). (Suc j, s))
            (filter (\<lambda>(j, s). signatureId s \<notin> signatureId ` set stored
                   \<and> signatureId s \<notin> signatureId ` set (take j ns)) (enumerate 0 ns))"
      unfolding filter_map
      by (rule arg_cong [where f = "map (\<lambda>(j, s). (Suc j, s))"], rule filter_cong)
        (use known in auto)
    then have "map snd (filter (\<lambda>(j, s). signatureId s \<notin> signatureId ` set stored
                   \<and> signatureId s \<notin> signatureId ` set (take j (sig # ns)))
            (enumerate 0 (sig # ns)))
        = map snd (filter (\<lambda>(j, s). signatureId s \<notin> signatureId ` set stored
                   \<and> signatureId s \<notin> signatureId ` set (take j ns)) (enumerate 0 ns))"
      unfolding shift using known by (simp add: comp_def case_prod_unfold)
    moreover have "merge_loop (sig # ns) stored = merge_loop ns stored"
      using True by simp
    ultimately show ?thesis
      using Cons.IH [of stored] by (simp only:)
  next
    case False
    then have "\<forall>s0 \<in> set stored. signatureId s0 \<noteq> signatureId sig"
      unfolding list_ex_iff by blast
    then have new: "signatureId sig \<notin> signatureId ` set stored"
      by (metis imageE)
    have "filter (\<lambda>(j, s). signatureId s \<notin> signatureId ` set stored
                   \<and> signatureId s \<notin> signatureId ` set (take j (sig # ns)))
            (map (\<lambda>(j, s). (Suc j, s)) (enumerate 0 ns))
        = map (\<lambda>(j, s). (Suc j, s))
            (filter (\<lambda>(j, s). signatureId s \<notin> signatureId ` set (stored @ [sig])
                   \<and> signatureId s \<notin> signatureId ` set (take j ns)) (enumerate 0 ns))"
      unfolding filter_map
      by (rule arg_cong [where f = "map (\<lambda>(j, s). (Suc j, s))"], rule filter_cong) auto
    then have "map snd (filter (\<lambda>(j, s). signatureId s \<notin> signatureId ` set stored
                   \<and> signatureId s \<notin> signatureId ` set (take j (sig # ns)))
            (enumerate 0 (sig # ns)))
        = sig # map snd (filter (\<lambda>(j, s). signatureId s \<notin> signatureId ` set (stored @ [sig])
                   \<and> signatureId s \<notin> signatureId ` set (take j ns)) (enumerate 0 ns))"
      unfolding shift using new by (simp add: comp_def case_prod_unfold)
    moreover have "merge_loop (sig # ns) stored = merge_loop ns (stored @ [sig])"
      using False by simp
    ultimately show ?thesis
      using Cons.IH [of "stored @ [sig]"] by (simp only: append_assoc append_Cons append_Nil)
  qed
qed




section \<open>Counters of honeypots\<close>

subsection \<open>Addition of one\<close>

lemma plus_one_ge: "n \<le> plus_one n"
  by (simp add: plus_one_def)

lemma plus_one_exact: "- (2 ^ 53) \<le> n + 1 \<Longrightarrow> n + 1 \<le> 2 ^ 53 \<Longrightarrow> plus_one n = n + 1"
  by (simp add: plus_one_def)

subsection \<open>Quantum honeypots\<close>

lemma ids_counts_saveQuantumData [simp]:
  "ids_counts (saveQuantumData env this) = ids_counts this"
  by (simp add: ids_counts_def saveQuantumData_def)

lemma ids_counts_generateQuantumKeys [simp]:
  "ids_counts (generateQuantumKeys env h this) = ids_counts this"
  by (simp add: ids_counts_def generateQuantumKeys_def)

lemma ids_counts_attackSignatures [simp]:
  "ids_counts (this\<lparr>attackSignatures := sigs\<rparr>) = ids_counts this"
  by (simp add: ids_counts_def)

lemma ids_counts_isQuantumSystemActive [simp]:
  "ids_counts (this\<lparr>isQuantumSystemActive := b\<rparr>) = ids_counts this"
  by (simp add: ids_counts_def)

text \<open>An assignment to other fields of a honeypot leaves all ids and counters alone.\<close>

lemma ids_counts_update_honeypot:
  assumes "\<And>h. honeypotId (f h) = honeypotId h"
    and "\<And>h. attacksDetected (f h) = attacksDetected h"
  shows "ids_counts (update_honeypot i f this) = ids_counts this"
proof (cases "i < length (quantumHoneypots this)")
  case True
  have "(map (\<lambda>h. (honeypotId h, attacksDetected h)) (quantumHoneypots this))
          [i := (honeypotId (quantumHoneypots this ! i),
                 attacksDetected (quantumHoneypots this ! i))]
        = map (\<lambda>h. (honeypotId h, attacksDetected h)) (quantumHoneypots this)"
    using True by (intro nth_equalityI) (simp_all add: nth_list_update)
  then show ?thesis
    using assms by (simp add: ids_counts_def update_honeypot_def map_update)
next
  case False
  then show ?thesis
    by (simp add: ids_counts_def update_honeypot_def list_update_beyond)
qed

lemma ids_counts_rotate_partner [simp]:
  "ids_counts (rotate_partner env h this) = ids_counts this"
  by (simp add: rotate_partner_def ids_counts_update_honeypot split: option.splits)

lemma ids_counts_rotate_loop [simp]:
  "ids_counts (rotate_loop env positions this) = ids_counts this"
  by (induction positions arbitrary: this) (simp_all add: Let_def ids_counts_update_honeypot)

lemma ids_counts_rotateQuantumKeys [simp]:
  "ids_counts (rotateQuantumKeys env hid this) = ids_counts this"
  by (simp add: rotateQuantumKeys_def Let_def)

lemma ids_counts_injectQuantumNoise [simp]:
  "ids_counts (injectQuantumNoise env i this) = ids_counts this"
  by (simp add: injectQuantumNoise_def ids_counts_update_honeypot)

lemma ids_counts_induceDecoherence [simp]:
  "ids_counts (induceDecoherence i this) = ids_counts this"
  by (simp add: induceDecoherence_def ids_counts_update_honeypot)

lemma ids_counts_triggerQuantumCountermeasures [simp]:
  "ids_counts (triggerQuantumCountermeasures env i cms this) = ids_counts this"
  by (induction cms arbitrary: this) simp_all

lemma ids_counts_mergeAttackSignatures [simp]:
  "ids_counts (mergeAttackSignatures ns this) = ids_counts this"
  by (simp add: mergeAttackSignatures_def Let_def)

lemma ids_counts_syncWithQuantumNetwork [simp]:
  "ids_counts (syncWithQuantumNetwork env this) = ids_counts this"
  by (simp add: syncWithQuantumNetwork_def split: option.splits)

lemma ids_counts_initializeQuantumSystem [simp]:
  "ids_counts (initializeQuantumSystem env this) = ids_counts this"
  by (simp add: initializeQuantumSystem_def Let_def split: option.splits)

lemma ids_counts_quantumSyncProcess [simp]:
  "ids_counts (quantumSyncProcess env this) = ids_counts this"
  by (simp add: quantumSyncProcess_def)

lemma ids_counts_keyRotation_loop [simp]:
  "ids_counts (snd (keyRotation_loop env positions this)) = ids_counts this"
  by (induction positions arbitrary: this) (simp_all add: Let_def split: sum.splits)

lemma ids_counts_keyRotationProcess [simp]:
  "ids_counts (snd (keyRotationProcess env this)) = ids_counts this"
  by (simp add: keyRotationProcess_def)

lemma ids_counts_decoherenceProcess [simp]:
  "ids_counts (decoherenceProcess env this) = ids_counts this"
  unfolding ids_counts_def decoherenceProcess_def
  by (rule nth_equalityI) (simp_all add: nth_enumerate_eq)

lemma ids_counts_entangleHoneypots [simp]:
  "ids_counts (snd (entangleHoneypots env id1 id2 this)) = ids_counts this"
  by (simp add: entangleHoneypots_def Let_def ids_counts_update_honeypot split: option.splits)

lemma ids_counts_measureQuantumState [simp]:
  "ids_counts (snd (measureQuantumState env hid this)) = ids_counts this"
  by (simp add: measureQuantumState_def Let_def ids_counts_update_honeypot split: option.splits)

lemma ids_counts_createQuantumHoneypot:
  "ids_counts (snd (createQuantumHoneypot env loc strength_opt this)) =
     ids_counts this @ [(generateHoneypotId env, 0)]"
proof -
  have "ids_counts (s\<lparr>quantumHoneypots := quantumHoneypots s @ [h]\<rparr>) =
      ids_counts s @ [(honeypotId h, attacksDetected h)]" for s h
    by (simp add: ids_counts_def)
  then show ?thesis
    by (simp add: createQuantumHoneypot_def Let_def)
qed

lemma ids_counts_cleanup:
  "ids_counts (cleanup env this) = [] \<or> ids_counts (cleanup env this) = ids_counts this"
proof -
  have "ids_counts (s\<lparr>quantumHoneypots := [], quantumKeys := [], attackSignatures := [],
      isQuantumSystemActive := False\<rparr>) = []" for s
    by (simp add: ids_counts_def)
  then show ?thesis
    by (simp add: cleanup_def Let_def)
qed

lemma findIndex_Some:
  "findIndex P xs = Some i \<Longrightarrow> i < length xs \<and> P (xs ! i)"
  by (induction xs arbitrary: i) (auto split: if_splits option.splits)

lemma length_ids_counts: "length (ids_counts this) = length (quantumHoneypots this)"
  by (simp add: ids_counts_def)

lemma nth_ids_counts:
  "i < length (quantumHoneypots this) \<Longrightarrow>
     ids_counts this ! i =
       (honeypotId (quantumHoneypots this ! i), attacksDetected (quantumHoneypots this ! i))"
  by (simp add: ids_counts_def)

text \<open>
  \<open>detectQuantumAttack\<close> changes the ids and counters in one place at most: the
  counter of the honeypot it found, when the analysis produced a signature.
\<close>

lemma ids_counts_detectQuantumAttack:
  "ids_counts (snd (detectQuantumAttack env hid ad this)) =
     (case (findIndex (\<lambda>h. honeypotId h = hid) (quantumHoneypots this),
            analyzeQuantumAttack env ad) of
        (Some i, Some sig) \<Rightarrow>
          (ids_counts this)[i := (honeypotId (quantumHoneypots this ! i),
                                  plus_one (attacksDetected (quantumHoneypots this ! i)))]
      | _ \<Rightarrow> ids_counts this)"
proof (cases "findIndex (\<lambda>h. honeypotId h = hid) (quantumHoneypots this)")
  case None
  then show ?thesis by (simp add: detectQuantumAttack_def)
next
  case (Some i)
  note found = this
  show ?thesis
  proof (cases "analyzeQuantumAttack env ad")
    case None
    then show ?thesis using found by (simp add: detectQuantumAttack_def)
  next
    case (Some sig)
    have i: "i < length (quantumHoneypots this)"
      using findIndex_Some [OF found] by simp
    have "ids_counts (snd (detectQuantumAttack env hid ad this)) =
       ids_counts (update_honeypot i (\<lambda>h. h\<lparr>attacksDetected := plus_one (attacksDetected h)\<rparr>)
          (update_honeypot i (\<lambda>h. h\<lparr>quantumSignatures := quantumSignatures h @ [sig]\<rparr>)
             this))"
      using found Some by (simp add: detectQuantumAttack_def Let_def)
    also have "\<dots> = (ids_counts this)[i := (honeypotId (quantumHoneypots this ! i),
        plus_one (attacksDetected (quantumHoneypots this ! i)))]"
      using i by (simp add: ids_counts_def update_honeypot_def map_update)
    finally show ?thesis using found Some by simp
  qed
qed

lemma detectQuantumAttack_pointwise:
  assumes "i < length (quantumHoneypots this)"
  shows "length (quantumHoneypots (snd (detectQuantumAttack env hid ad this))) =
      length (quantumHoneypots this)
    \<and> honeypotId (quantumHoneypots (snd (detectQuantumAttack env hid ad this)) ! i) =
        honeypotId (quantumHoneypots this ! i)
    \<and> attacksDetected (quantumHoneypots (snd (detectQuantumAttack env hid ad this)) ! i) =
        (if fst (detectQuantumAttack env hid ad this) \<noteq> None
            \<and> findIndex (\<lambda>h. honeypotId h = hid) (quantumHoneypots this) = Some i
         then plus_one (attacksDetected (quantumHoneypots this ! i))
         else attacksDetected (quantumHoneypots this ! i))"
proof -
  let ?this' = "snd (detectQuantumAttack env hid ad this)"
  have len: "length (quantumHoneypots ?this') = length (quantumHoneypots this)"
    using arg_cong [OF ids_counts_detectQuantumAttack [of env hid ad this], of length]
    by (simp add: length_ids_counts split: option.splits)
  have returned: "fst (detectQuantumAttack env hid ad this) \<noteq> None \<longleftrightarrow>
      findIndex (\<lambda>h. honeypotId h = hid) (quantumHoneypots this) \<noteq> None
      \<and> analyzeQuantumAttack env ad \<noteq> None"
    by (auto simp: detectQuantumAttack_def Let_def split: option.splits)
  have "ids_counts ?this' ! i =
      (honeypotId (quantumHoneypots ?this' ! i), attacksDetected (quantumHoneypots ?this' ! i))"
    using assms len by (simp add: nth_ids_counts)
  moreover have "ids_counts ?this' ! i =
     (honeypotId (quantumHoneypots this ! i),
        (if fst (detectQuantumAttack env hid ad this) \<noteq> None
            \<and> findIndex (\<lambda>h. honeypotId h = hid) (quantumHoneypots this) = Some i
         then plus_one (attacksDetected (quantumHoneypots this ! i))
         else attacksDetected (quantumHoneypots this ! i)))"
    using assms unfolding ids_counts_detectQuantumAttack returned
    by (auto simp: nth_ids_counts length_ids_counts nth_list_update split: option.splits)
  ultimately show ?thesis using len by simp
qed

text \<open>
  Every operation but \<open>Initialize\<close> leaves the ids and counters as they are, or
  appends a honeypot, or empties the list, or adds one to a counter.
\<close>

lemma ids_counts_perform:
  assumes "operation \<noteq> Initialize"
  shows "ids_counts (perform env operation q) = ids_counts q
     \<or> ids_counts (perform env operation q) = []
     \<or> (\<exists>new. ids_counts (perform env operation q) = ids_counts q @ [new])
     \<or> (\<exists>i < length (quantumHoneypots q).
           ids_counts (perform env operation q) =
             (ids_counts q)[i := (honeypotId (quantumHoneypots q ! i),
                                   plus_one (attacksDetected (quantumHoneypots q ! i)))])"
proof (cases operation)
  case Initialize
  with assms show ?thesis by simp
next
  case (CreateQuantumHoneypot loc strength_opt)
  then show ?thesis by (simp add: ids_counts_createQuantumHoneypot)
next
  case (DetectQuantumAttack hid ad)
  show ?thesis
  proof (cases "findIndex (\<lambda>h. honeypotId h = hid) (quantumHoneypots q)")
    case None
    then show ?thesis
      unfolding DetectQuantumAttack perform.simps ids_counts_detectQuantumAttack by simp
  next
    case (Some i)
    then have "i < length (quantumHoneypots q)"
      using findIndex_Some by fastforce
    then show ?thesis
      unfolding DetectQuantumAttack perform.simps ids_counts_detectQuantumAttack Some
      by (cases "analyzeQuantumAttack env ad") auto
  qed
next
  case Cleanup
  then show ?thesis using ids_counts_cleanup [of env q] by auto
qed simp_all

lemma perform_pointwise:
  assumes "operation \<noteq> Initialize"
    and "i < length (quantumHoneypots q)"
    and "i < length (quantumHoneypots (perform env operation q))"
  shows "honeypotId (quantumHoneypots (perform env operation q) ! i) =
       honeypotId (quantumHoneypots q ! i)
     \<and> attacksDetected (quantumHoneypots q ! i) \<le>
         attacksDetected (quantumHoneypots (perform env operation q) ! i)"
proof -
  let ?q' = "perform env operation q"
  have after: "ids_counts ?q' ! i =
      (honeypotId (quantumHoneypots ?q' ! i), attacksDetected (quantumHoneypots ?q' ! i))"
    using assms(3) by (rule nth_ids_counts)
  have before: "ids_counts q ! i =
      (honeypotId (quantumHoneypots q ! i), attacksDetected (quantumHoneypots q ! i))"
    using assms(2) by (rule nth_ids_counts)
  from ids_counts_perform [OF assms(1), of env q]
  consider (same) "ids_counts ?q' = ids_counts q"
    | (empty) "ids_counts ?q' = []"
    | (more) new where "ids_counts ?q' = ids_counts q @ [new]"
    | (counted) i0 where "i0 < length (quantumHoneypots q)"
        "ids_counts ?q' = (ids_counts q)[i0 := (honeypotId (quantumHoneypots q ! i0),
            plus_one (attacksDetected (quantumHoneypots q ! i0)))]"
    by blast
  then show ?thesis
  proof cases
    case same
    then show ?thesis using after before by simp
  next
    case empty
    then have "length (quantumHoneypots ?q') = 0"
      using length_ids_counts [of ?q'] by simp
    then show ?thesis using assms(3) by simp
  next
    case more
    then have "ids_counts ?q' ! i = ids_counts q ! i"
      using assms(2) by (simp add: nth_append length_ids_counts)
    then show ?thesis using after before by simp
  next
    case counted
    show ?thesis
    proof (cases "i0 = i")
      case True
      then have "ids_counts ?q' ! i = (honeypotId (quantumHoneypots q ! i),
            plus_one (attacksDetected (quantumHoneypots q ! i)))"
        using counted assms(2) by (simp add: length_ids_counts)
      then show ?thesis using after plus_one_ge [of "attacksDetected (quantumHoneypots q ! i)"]
        by simp
    next
      case False
      then have "ids_counts ?q' ! i = ids_counts q ! i"
        using counted by simp
      then show ?thesis using after before by simp
    qed
  qed
qed

lemma quantumHoneypots_initialize:
  "quantumHoneypots (perform env Initialize q) =
     (if getItem_throws_q env then quantumHoneypots q
      else case stored_quantum_data q of
             None \<Rightarrow> quantumHoneypots q
           | Some data \<Rightarrow> data_quantumHoneypots data)"
proof -
  have "quantumHoneypots (syncWithQuantumNetwork env s) = quantumHoneypots s" for s
    by (simp add: syncWithQuantumNetwork_def mergeAttackSignatures_def Let_def
        split: option.splits)
  then have "quantumHoneypots (initializeQuantumSystem env s) = quantumHoneypots s" for s
    by (simp add: initializeQuantumSystem_def Let_def split: option.splits)
  then show ?thesis
    by (simp add: initialize_def loadQuantumData_def split: option.splits)
qed

subsection \<open>Mobile honeypots\<close>

lemma honeypots_saveHoneypots [simp]: "honeypots (saveHoneypots env this) = honeypots this"
  by (simp add: saveHoneypots_def)

lemma triggerRandomHoneypot_result:
  assumes "triggerRandomHoneypot env this = Inr this'"
  shows "honeypots this' = honeypots this \<or>
     (\<exists>i0 < length (honeypots this). \<not> triggered (honeypots this ! i0) \<and>
        honeypots this' = (honeypots this)[i0 := (honeypots this ! i0)
           \<lparr>triggered := True, triggerCount := plus_one (triggerCount (honeypots this ! i0))\<rparr>])"
proof -
  let ?active = "filter (\<lambda>i. \<not> triggered (honeypots this ! i)) [0..<length (honeypots this)]"
  let ?k = "random_index env (length ?active)"
  show ?thesis
  proof (cases "length ?active > 0 \<and> 0 \<le> ?k \<and> ?k < int (length ?active)")
    case False
    then show ?thesis using assms
      by (auto simp: triggerRandomHoneypot_def Let_def split: if_splits)
  next
    case True
    then have "nat ?k < length ?active" by linarith
    then have "?active ! nat ?k \<in> set ?active" by (rule nth_mem)
    then have i0: "?active ! nat ?k < length (honeypots this)"
        "\<not> triggered (honeypots this ! (?active ! nat ?k))"
      by simp_all
    have "honeypots this' = (honeypots this)[?active ! nat ?k :=
         (honeypots this ! (?active ! nat ?k))
           \<lparr>triggered := True,
            triggerCount := plus_one (triggerCount (honeypots this ! (?active ! nat ?k)))\<rparr>]"
      using assms True by (auto simp: triggerRandomHoneypot_def Let_def split: if_splits)
    with i0 show ?thesis by blast
  qed
qed

lemma triggerRandomHoneypot_pointwise:
  assumes "triggerRandomHoneypot env this = Inr this'" "i < length (honeypots this)"
  shows "length (honeypots this') = length (honeypots this)
    \<and> id_hp (honeypots this' ! i) = id_hp (honeypots this ! i)
    \<and> triggerCount (honeypots this' ! i) =
        (if triggered (honeypots this' ! i) \<noteq> triggered (honeypots this ! i)
         then plus_one (triggerCount (honeypots this ! i))
         else triggerCount (honeypots this ! i))"
proof -
  from triggerRandomHoneypot_result [OF assms(1)] show ?thesis
  proof
    assume "honeypots this' = honeypots this"
    then show ?thesis by simp
  next
    assume "\<exists>i0 < length (honeypots this). \<not> triggered (honeypots this ! i0) \<and>
        honeypots this' = (honeypots this)[i0 := (honeypots this ! i0)
           \<lparr>triggered := True, triggerCount := plus_one (triggerCount (honeypots this ! i0))\<rparr>]"
    then obtain i0 where i0: "i0 < length (honeypots this)"
      "\<not> triggered (honeypots this ! i0)"
      "honeypots this' = (honeypots this)[i0 := (honeypots this ! i0)
           \<lparr>triggered := True, triggerCount := plus_one (triggerCount (honeypots this ! i0))\<rparr>]"
      by blast
    show ?thesis
    proof (cases "i0 = i")
      case True
      then show ?thesis using i0 assms(2) by simp
    next
      case False
      then show ?thesis using i0 assms(2) by simp
    qed
  qed
qed

lemma perform_mobile_pointwise:
  assumes "operation \<noteq> LoadStoredData"
    and "i < length (honeypots m)"
    and "i < length (honeypots (perform_mobile env operation m))"
  shows "id_hp (honeypots (perform_mobile env operation m) ! i) = id_hp (honeypots m ! i)
     \<and> triggerCount (honeypots m ! i) \<le>
         triggerCount (honeypots (perform_mobile env operation m) ! i)"
proof (cases operation)
  case LoadStoredData
  with assms(1) show ?thesis by simp
next
  case InitializeHoneypots
  from assms(2) have "length (honeypots m) \<noteq> 0"
    by (cases "honeypots m") simp_all
  then have "initializeHoneypots env m = m"
    by (simp add: initializeHoneypots_def)
  then show ?thesis using InitializeHoneypots by simp
next
  case TriggerRandomHoneypot
  show ?thesis
  proof (cases "triggerRandomHoneypot env m")
    case (Inl e)
    then show ?thesis using TriggerRandomHoneypot by simp
  next
    case (Inr m')
    from triggerRandomHoneypot_pointwise [OF Inr assms(2)]
    show ?thesis
      using TriggerRandomHoneypot Inr plus_one_ge [of "triggerCount (honeypots m ! i)"]
      by (simp split: if_splits)
  qed
qed

lemma honeypots_loadStoredData:
  "honeypots (perform_mobile env LoadStoredData m) =
     (if getItem_throws_hn env ''honeynet_statistics''
         \<or> getItem_throws_hn env ''honeynet_honeypots'' then honeypots m
      else case stored_honeynet_honeypots m of
             None \<Rightarrow> honeypots m
           | Some storedHoneypots \<Rightarrow> storedHoneypots)"
  by (simp add: loadStoredData_def Let_def split: option.splits)




section \<open>SwarmService: reading the pheromone trails\<close>

text \<open>On trails whose timestamps are dates, the decay is applied to every trail.\<close>

lemma apply_decay_dates:
  assumes "\<forall>t \<in> set trails. \<exists>laid. timestamp t = DateObject laid"
  shows "apply_decay ar clock k trails =
     Inr (map (\<lambda>(j, t). t\<lparr>strength := number_times ar (strength t)
                  (Math_exp ar (number_times ar (- decayRate t)
                     (number_divide ar (real_of_int (clock j - time_value (timestamp t)))
                        3600000)))\<rparr>)
            (enumerate k trails))"
  using assms
proof (induction trails arbitrary: k)
  case Nil
  then show ?case by simp
next
  case (Cons t trails)
  from Cons.prems obtain laid where laid: "timestamp t = DateObject laid"
    by auto
  from Cons.prems have "\<forall>t \<in> set trails. \<exists>laid. timestamp t = DateObject laid"
    by simp
  from Cons.IH [OF this, of "Suc k"] laid show ?case
    by (simp add: calculateDecayedStrength_def Let_def)
qed

text \<open>A trail whose timestamp is a string makes the call throw.\<close>

lemma apply_decay_string:
  assumes "\<exists>t \<in> set trails. \<exists>laid. timestamp t = DateString laid"
  shows "apply_decay ar clock k trails = Inl Error"
  using assms
proof (induction trails arbitrary: k)
  case Nil
  then show ?case by simp
next
  case (Cons t trails)
  show ?case
  proof (cases "timestamp t")
    case (DateString laid)
    then show ?thesis by (simp add: calculateDecayedStrength_def)
  next
    case (DateObject laid)
    with Cons.prems have "\<exists>t \<in> set trails. \<exists>laid. timestamp t = DateString laid"
      by auto
    from Cons.IH [OF this, of "Suc k"] DateObject show ?thesis
      by (simp add: calculateDecayedStrength_def Let_def)
  qed
qed

lemma getPheromoneTrails_reloaded_trail:
  assumes "\<exists>t \<in> set (pheromoneTrails this). \<exists>laid. timestamp t = DateString laid"
  shows "getPheromoneTrails ar clock ty loc this = (Inl Error, this)"
  using apply_decay_string [OF assms, of ar clock 0]
  by (simp add: getPheromoneTrails_def)

lemma sort_descending:
  "sorted_wrt (\<lambda>a b. strength a \<ge> strength b) (sort_key (\<lambda>t. - strength t) xs)"
  using sorted_sort_key [of "\<lambda>t. - strength t" xs] by (simp add: sorted_map)

text \<open>
  C8, as the code has it. On stored trails whose timestamps are dates,
  \<open>getPheromoneTrails\<close> returns, and the service state after the call is the state
  before it. The trails returned are the stored trails, each with its strength replaced
  by the decayed strength: the strength times the exponential of the negated decay rate
  times the age in hours, the age being the clock reading minus the time the trail was
  laid, in milliseconds, divided by 3600000 (products, quotient and exponential as the
  arithmetic of doubles computes them; without rounding this is
  \<open>strength * exp (- decayRate * (age / 3600000))\<close>). Of these trails those are kept
  whose decayed strength exceeds the double 0.01, whose type is the given
  \<open>trailType\<close> when one is given, and whose location is the given \<open>location\<close> when a
  location is given and is not the empty string; they are returned in the order of
  descending strength.
\<close>

theorem getPheromoneTrails_lookup:
  assumes "\<forall>t \<in> set (pheromoneTrails this). \<exists>laid. timestamp t = DateObject laid"
  shows "(\<exists>returned.
       getPheromoneTrails ar clock ty loc this = (Inr returned, this)
     \<and> mset returned =
         mset (filter (\<lambda>t. strength t > literal_0_01
                          \<and> (\<forall>x. ty = Some x \<longrightarrow> trailType t = x)
                          \<and> (\<forall>l. loc = Some l \<and> l \<noteq> [] \<longrightarrow> location t = l))
                (map (\<lambda>(k, t). t\<lparr>strength := number_times ar (strength t)
                         (Math_exp ar (number_times ar (- decayRate t)
                            (number_divide ar (real_of_int (clock k - time_value (timestamp t)))
                               3600000)))\<rparr>)
                   (enumerate 0 (pheromoneTrails this))))
     \<and> sorted_wrt (\<lambda>a b. strength a \<ge> strength b) returned)
   \<and> number_times exact_arithmetic s
        (Math_exp exact_arithmetic (number_times exact_arithmetic (- r)
           (number_divide exact_arithmetic age 3600000))) =
       s * exp (- r * (age / 3600000))
   \<and> literal_0_01 = 5764607523034235 / 2 ^ 59"
proof (intro conjI)
  let ?decayed = "map (\<lambda>(k, t). t\<lparr>strength := number_times ar (strength t)
                         (Math_exp ar (number_times ar (- decayRate t)
                            (number_divide ar (real_of_int (clock k - time_value (timestamp t)))
                               3600000)))\<rparr>)
                   (enumerate 0 (pheromoneTrails this))"
  have decay: "apply_decay ar clock 0 (pheromoneTrails this) = Inr ?decayed"
    using assms by (rule apply_decay_dates)
  show "\<exists>returned.
       getPheromoneTrails ar clock ty loc this = (Inr returned, this)
     \<and> mset returned =
         mset (filter (\<lambda>t. strength t > literal_0_01
                          \<and> (\<forall>x. ty = Some x \<longrightarrow> trailType t = x)
                          \<and> (\<forall>l. loc = Some l \<and> l \<noteq> [] \<longrightarrow> location t = l))
                ?decayed)
     \<and> sorted_wrt (\<lambda>a b. strength a \<ge> strength b) returned"
    by (cases ty; cases loc)
      (auto simp: getPheromoneTrails_def Let_def decay sort_descending
         intro!: arg_cong [where f = mset] filter_cong)
next
  show "number_times exact_arithmetic s
        (Math_exp exact_arithmetic (number_times exact_arithmetic (- r)
           (number_divide exact_arithmetic age 3600000))) =
       s * exp (- r * (age / 3600000))"
    by (simp add: exact_arithmetic_def)
next
  show "literal_0_01 = 5764607523034235 / 2 ^ 59"
    by (rule literal_0_01_def)
qed

text \<open>
  The example: ten hours after they were laid, the trails of strengths \<open>1\<close>, \<open>2\<close>
  and \<open>1 / 64\<close> have decayed by the factor \<open>exp (- (0.1 * 10))\<close>, which lies
  between \<open>1 / 9\<close> and \<open>1 / 2\<close>; the third is then below \<open>0.01\<close> and is left
  out, and the second comes before the first.
\<close>

lemma decay_factor_bounds:
  "1 / 9 \<le> exp (- (literal_0_1 * 10)) \<and> exp (- (literal_0_1 * 10)) \<le> 1 / 2"
proof -
  let ?x = "literal_0_1 * 10"
  have x: "1 \<le> ?x" "?x \<le> 2"
    by (simp_all add: literal_0_1_def)
  have "exp (1::real) \<le> exp ?x"
    using x(1) by simp
  moreover have "(2::real) \<le> exp 1"
    using exp_ge_add_one_self [of "1::real"] by simp
  ultimately have low: "2 \<le> exp ?x"
    by linarith
  have "exp ?x \<le> exp (2::real)"
    using x(2) by simp
  moreover have "exp (2::real) = exp 1 * exp 1"
    using exp_add [of "1::real" 1] by simp
  moreover have "exp (1::real) * exp 1 \<le> 3 * 3"
    using exp_le by (intro mult_mono) simp_all
  ultimately have high: "exp ?x \<le> 9"
    by linarith
  have pos: "0 < exp ?x"
    by simp
  have "exp (- ?x) = 1 / exp ?x"
    by (simp add: exp_minus divide_inverse)
  moreover have "1 / 9 \<le> 1 / exp ?x"
    using high pos by (simp add: field_simps)
  moreover have "1 / exp ?x \<le> 1 / 2"
    using low pos by (simp add: field_simps)
  ultimately show ?thesis
    by simp
qed

lemma getPheromoneTrails_example:
  "\<exists>f. 1 / 9 \<le> f \<and> f \<le> 1 / 2
     \<and> getPheromoneTrails exact_arithmetic (\<lambda>k. 36000000) (Some threat) (Some ''A'')
         swarm_service =
       (Inr [(trail ''trail_2'' 2 ''A'')\<lparr>strength := 2 * f\<rparr>,
             (trail ''trail_1'' 1 ''A'')\<lparr>strength := f\<rparr>], swarm_service)"
proof -
  define f where "f = exp (- (literal_0_1 * 10))"
  have bounds: "1 / 9 \<le> f" "f \<le> 1 / 2"
    using decay_factor_bounds by (simp_all add: f_def)
  have decay: "apply_decay exact_arithmetic (\<lambda>k. 36000000) 0 (pheromoneTrails swarm_service) =
      Inr [(trail ''trail_1'' 1 ''A'')\<lparr>strength := f\<rparr>,
           (trail ''trail_2'' 2 ''A'')\<lparr>strength := 2 * f\<rparr>,
           (trail ''trail_3'' (1 / 64) ''A'')\<lparr>strength := f / 64\<rparr>]"
    by (simp add: swarm_service_def trail_def calculateDecayedStrength_def
        exact_arithmetic_def Let_def f_def)
  have threshold: "f > literal_0_01" "2 * f > literal_0_01" "\<not> f / 64 > literal_0_01"
    using bounds by (simp_all add: literal_0_01_def)
  have "getPheromoneTrails exact_arithmetic (\<lambda>k. 36000000) (Some threat) (Some ''A'')
         swarm_service =
       (Inr [(trail ''trail_2'' 2 ''A'')\<lparr>strength := 2 * f\<rparr>,
             (trail ''trail_1'' 1 ''A'')\<lparr>strength := f\<rparr>], swarm_service)"
    using threshold bounds
    by (simp add: getPheromoneTrails_def decay Let_def trail_def)
  with bounds show ?thesis
    by blast
qed

theorem getPheromoneTrails_lookup_witness:
  "map timestamp (pheromoneTrails swarm_service) = [DateObject 0, DateObject 0, DateObject 0]
   \<and> (\<exists>returned.
         getPheromoneTrails exact_arithmetic (\<lambda>k. 36000000) (Some threat) (Some ''A'')
           swarm_service = (Inr returned, swarm_service)
       \<and> map trailId returned = [''trail_2'', ''trail_1'']
       \<and> sorted_wrt (\<lambda>a b. strength a \<ge> strength b) returned)
   \<and> getPheromoneTrails exact_arithmetic (\<lambda>k. 36000000) (Some threat) (Some ''B'')
         swarm_service = (Inr [], swarm_service)"
proof -
  have dates: "\<forall>t \<in> set (pheromoneTrails swarm_service). \<exists>laid. timestamp t = DateObject laid"
    by (simp add: swarm_service_def trail_def)
  have stamps: "map timestamp (pheromoneTrails swarm_service) =
      [DateObject 0, DateObject 0, DateObject 0]"
    by (simp add: swarm_service_def trail_def)
  from getPheromoneTrails_lookup [OF dates, of exact_arithmetic "\<lambda>k. 36000000" "Some threat"
      "Some ''A''"]
  obtain returned where returned:
    "getPheromoneTrails exact_arithmetic (\<lambda>k. 36000000) (Some threat) (Some ''A'')
       swarm_service = (Inr returned, swarm_service)"
    "sorted_wrt (\<lambda>a b. strength a \<ge> strength b) returned"
    by blast
  from getPheromoneTrails_example obtain f where
    "getPheromoneTrails exact_arithmetic (\<lambda>k. 36000000) (Some threat) (Some ''A'')
         swarm_service =
       (Inr [(trail ''trail_2'' 2 ''A'')\<lparr>strength := 2 * f\<rparr>,
             (trail ''trail_1'' 1 ''A'')\<lparr>strength := f\<rparr>], swarm_service)"
    by blast
  with returned(1) have "returned = [(trail ''trail_2'' 2 ''A'')\<lparr>strength := 2 * f\<rparr>,
             (trail ''trail_1'' 1 ''A'')\<lparr>strength := f\<rparr>]"
    by simp
  then have ids: "map trailId returned = [''trail_2'', ''trail_1'']"
    by (simp add: trail_def)
  from getPheromoneTrails_lookup [OF dates, of exact_arithmetic "\<lambda>k. 36000000" "Some threat"
      "Some ''B''"]
  obtain elsewhere where elsewhere:
    "getPheromoneTrails exact_arithmetic (\<lambda>k. 36000000) (Some threat) (Some ''B'')
       swarm_service = (Inr elsewhere, swarm_service)"
    "mset elsewhere =
         mset (filter (\<lambda>t. strength t > literal_0_01
                          \<and> (\<forall>x. Some threat = Some x \<longrightarrow> trailType t = x)
                          \<and> (\<forall>l. Some ''B'' = Some l \<and> l \<noteq> [] \<longrightarrow> location t = l))
                (map (\<lambda>(k, t). t\<lparr>strength := number_times exact_arithmetic (strength t)
                         (Math_exp exact_arithmetic (number_times exact_arithmetic (- decayRate t)
                            (number_divide exact_arithmetic
                               (real_of_int (36000000 - time_value (timestamp t)))
                               3600000)))\<rparr>)
                   (enumerate 0 (pheromoneTrails swarm_service))))"
    by blast
  from elsewhere(2) have "mset elsewhere = {#}"
    by (simp add: swarm_service_def trail_def enumerate_eq_zip)
  then have "elsewhere = []"
    by simp
  with elsewhere(1) have none: "getPheromoneTrails exact_arithmetic (\<lambda>k. 36000000)
      (Some threat) (Some ''B'') swarm_service = (Inr [], swarm_service)"
    by simp
  have "\<exists>returned.
         getPheromoneTrails exact_arithmetic (\<lambda>k. 36000000) (Some threat) (Some ''A'')
           swarm_service = (Inr returned, swarm_service)
       \<and> map trailId returned = [''trail_2'', ''trail_1'']
       \<and> sorted_wrt (\<lambda>a b. strength a \<ge> strength b) returned"
    using returned ids by (intro exI [of _ returned] conjI)
  with stamps none show ?thesis
    by (intro conjI)
qed

text \<open>
  C8 as stated fails for the empty string as location: the call does not restrict
  the result to the trails at that location and returns the three trails, which are at
  location \<open>A\<close>.
\<close>

theorem getPheromoneTrails_empty_location:
  "getPheromoneTrails exact_arithmetic (\<lambda>k. 0) None (Some []) swarm_service =
     (Inr [trail ''trail_2'' 2 ''A'', trail ''trail_1'' 1 ''A'', trail ''trail_3'' (1 / 64) ''A''],
      swarm_service)
   \<and> map location [trail ''trail_2'' 2 ''A'', trail ''trail_1'' 1 ''A'',
        trail ''trail_3'' (1 / 64) ''A''] = [''A'', ''A'', ''A'']"
  by (simp add: getPheromoneTrails_def swarm_service_def trail_def calculateDecayedStrength_def
      exact_arithmetic_def literal_0_01_def Let_def)

end
